theory Spec2Isabelle
  imports Main "HOL-Library.Sublist"
begin

section \<open>TransactionScope: a unit-of-work coordinator (src/database/transaction-scope.ts)\<close>

subsection \<open>JavaScript values\<close>

text \<open>
  The values that travel through the coordinator: field values of entities, the entries of
  \<open>options.values\<close>, query parameters and hook data. A function value is identified by
  its name (TypeORM's raw SQL idiom \<^verbatim>\<open>{fn: () => "NOW()"}\<close> holds \<open>JFun ''fn''\<close>).
  An object literal is the list of its own entries in insertion order, the order in which
  \<^verbatim>\<open>Object.entries\<close> enumerates them.
\<close>

datatype jsvalue =
    JUndefined
  | JNull
  | JBool bool
  | JNum int
  | JStr string
  | JFun string
  | JObj "(string \<times> jsvalue) list"
  | JArr "jsvalue list"

type_synonym fieldmap = "(string \<times> jsvalue) list"

text \<open>JavaScript truthiness, as tested by \<^verbatim>\<open>if (v)\<close> and \<^verbatim>\<open>v ? a : b\<close>.\<close>

fun truthy :: "jsvalue \<Rightarrow> bool" where
  "truthy JUndefined = False"
| "truthy JNull = False"
| "truthy (JBool b) = b"
| "truthy (JNum n) = (n \<noteq> 0)"
| "truthy (JStr s) = (s \<noteq> [])"
| "truthy (JFun f) = True"
| "truthy (JObj kvs) = True"
| "truthy (JArr vs) = True"

text \<open>\<^verbatim>\<open>typeof value === 'function'\<close>.\<close>

fun is_function :: "jsvalue \<Rightarrow> bool" where
  "is_function (JFun f) = True"
| "is_function v = False"

text \<open>Values that can be thrown: the two errors the coordinator constructs itself, the
  \<open>TypeError\<close> of the language, and whatever a collaborator (datastore, hook) throws.\<close>

datatype exn =
    BadRequestException string
  | Error string
  | TypeError string
  | Thrown string

subsection \<open>Entities and the store\<close>

text \<open>
  Modelled from the spec: \<open>EntityBase\<close> (src/database/entitybase.ts is not among the
  sources). The spec's entity contract is: a stable \<open>id\<close>, an optional pre-mutation
  snapshot, a derived changed-fields view, and a class identity label. An entity is an
  object created by its class: it has the class's name, own data properties, and a
  prototype. \<open>id\<close> and \<open>entitySnapshot\<close> are data properties. The derived view
  \<^verbatim>\<open>getPropertiesToUpdate\<close> is a getter of the missing class and is a parameter of the
  model (field \<open>getPropertiesToUpdate\<close> of \<open>world\<close> below).

  Entities are owned by the caller and only referenced by the coordinator, which mutates
  them in place (\<^verbatim>\<open>obj[key] = value\<close>, \<^verbatim>\<open>OrmUtils.mergeDeep\<close>). The model keeps
  them in an explicit store: a reference is an address, the queue holds references.
  Arrays and option objects are never written by the coordinator and are held by value.
\<close>

text \<open>
  The prototype of an object. An object its class created has the class's prototype, whose
  chain runs through \<^verbatim>\<open>EntityBase.prototype\<close>. The assignment
  \<^verbatim>\<open>obj['__proto__'] = value\<close> runs the setter of \<^verbatim>\<open>Object.prototype\<close>, which
  replaces the prototype when the value is an object (a plain object, an array, a
  function) or \<open>null\<close>.
\<close>

datatype prototype =
    ClassPrototype
  | ObjectPrototype "(string \<times> jsvalue) list"
  | ArrayPrototype "jsvalue list"
  | FunctionPrototype string
  | NullPrototype

record EntityBase =
  className :: string
  props :: "string \<rightharpoonup> jsvalue"
  prototype :: prototype

type_synonym ref = nat
type_synonym store = "ref \<Rightarrow> EntityBase"

text \<open>\<^verbatim>\<open>entity instanceof EntityBase\<close>: \<^verbatim>\<open>EntityBase.prototype\<close> is on the prototype
  chain.\<close>

definition is_instance :: "EntityBase \<Rightarrow> bool" where
  "is_instance e = (prototype e = ClassPrototype)"

text \<open>
  Reading \<^verbatim>\<open>entity[k]\<close> for a name \<open>k\<close> that no built-in prototype defines (the
  coordinator reads \<open>id\<close>, \<open>entitySnapshot\<close>, \<open>query\<close> and \<open>parameters\<close>): the own
  property, else the property of a plain object that has become the prototype, else
  \<open>undefined\<close>.
\<close>

definition get_prop :: "EntityBase \<Rightarrow> string \<Rightarrow> jsvalue" where
  "get_prop e k =
     (case props e k of
        Some v \<Rightarrow> v
      | None \<Rightarrow>
          (case prototype e of
             ObjectPrototype kvs \<Rightarrow> (case map_of kvs k of Some v \<Rightarrow> v | None \<Rightarrow> JUndefined)
           | ClassPrototype \<Rightarrow> JUndefined
           | ArrayPrototype vs \<Rightarrow> JUndefined
           | FunctionPrototype f \<Rightarrow> JUndefined
           | NullPrototype \<Rightarrow> JUndefined))"

text \<open>
  The assignment \<^verbatim>\<open>obj[key] = value\<close>. Under the key \<open>__proto__\<close> it runs the
  prototype setter: an object or \<open>null\<close> becomes the prototype, any other value is
  ignored, and no own property is created. Under any other key it writes the own data
  property (the entity is extensible and its class declares its fields as data
  properties).
\<close>

definition set_prop :: "EntityBase \<Rightarrow> string \<Rightarrow> jsvalue \<Rightarrow> EntityBase" where
  "set_prop e k v =
     (if k = ''__proto__''
      then (case v of
              JObj kvs \<Rightarrow> e\<lparr>prototype := ObjectPrototype kvs\<rparr>
            | JArr vs \<Rightarrow> e\<lparr>prototype := ArrayPrototype vs\<rparr>
            | JFun f \<Rightarrow> e\<lparr>prototype := FunctionPrototype f\<rparr>
            | JNull \<Rightarrow> e\<lparr>prototype := NullPrototype\<rparr>
            | JUndefined \<Rightarrow> e
            | JBool b \<Rightarrow> e
            | JNum n \<Rightarrow> e
            | JStr s \<Rightarrow> e)
      else e\<lparr>props := (props e)(k \<mapsto> v)\<rparr>)"

definition entity_id :: "EntityBase \<Rightarrow> jsvalue" where
  "entity_id e = get_prop e ''id''"

definition entitySnapshot :: "EntityBase \<Rightarrow> jsvalue" where
  "entitySnapshot e = get_prop e ''entitySnapshot''"

text \<open>\<^verbatim>\<open>v.name\<close>: reading a property of \<open>undefined\<close> or \<open>null\<close> throws; a function
  has its name; a plain object has the property if it holds one; any other value has
  none.\<close>

fun name_of :: "jsvalue \<Rightarrow> exn + jsvalue" where
  "name_of JUndefined = Inl (TypeError ''Cannot read properties of undefined (reading name)'')"
| "name_of JNull = Inl (TypeError ''Cannot read properties of null (reading name)'')"
| "name_of (JFun f) = Inr (JStr f)"
| "name_of (JObj kvs) = Inr (case map_of kvs ''name'' of Some v \<Rightarrow> v | None \<Rightarrow> JUndefined)"
| "name_of (JBool b) = Inr JUndefined"
| "name_of (JNum n) = Inr JUndefined"
| "name_of (JStr s) = Inr JUndefined"
| "name_of (JArr vs) = Inr JUndefined"

text \<open>
  \<^verbatim>\<open>entity.constructor.name\<close>. An own property \<open>constructor\<close> shadows the inherited
  one. Otherwise the constructor comes from the prototype: the entity's class, or what a
  replaced prototype provides (a plain object its own \<open>constructor\<close> entry or
  \<open>Object\<close>, an array \<open>Array\<close>, a function \<open>Function\<close>, \<open>null\<close> nothing).
\<close>

definition entity_constructor_name :: "EntityBase \<Rightarrow> exn + jsvalue" where
  "entity_constructor_name e =
     (case props e ''constructor'' of
        Some v \<Rightarrow> name_of v
      | None \<Rightarrow>
          (case prototype e of
             ClassPrototype \<Rightarrow> Inr (JStr (className e))
           | ObjectPrototype kvs \<Rightarrow>
               (case map_of kvs ''constructor'' of
                  Some v \<Rightarrow> name_of v
                | None \<Rightarrow> Inr (JStr ''Object''))
           | ArrayPrototype vs \<Rightarrow> Inr (JStr ''Array'')
           | FunctionPrototype f \<Rightarrow> Inr (JStr ''Function'')
           | NullPrototype \<Rightarrow> name_of JUndefined))"

subsection \<open>The pending-change queue and the hook registry\<close>

record IRawQuery =
  query :: string
  parameters :: "jsvalue list"

datatype HookType = AfterCommit

text \<open>
  A listener is a function of the hook's data. What the coordinator can observe of a call
  is whether it throws synchronously, or returns; a returned promise settles as fulfilled
  (\<open>None\<close>) or rejected (\<open>Some e\<close>), and a returned plain value counts as fulfilled.
  Every awaited promise is assumed to settle.
\<close>

datatype listener_result =
    Returns "exn option"
  | Throws exn

record RegisterHooksProps =
  listener :: "fieldmap \<Rightarrow> listener_result"
  data :: fieldmap

record HooksMetaData = RegisterHooksProps +
  hookType :: HookType

datatype TransactionCollectionEnum =
    RawQuery
  | EntityCollection
  | BulkEntityCollnection

text \<open>Modelled from the spec: \<open>ObjectState\<close> (src/common/enums.ts is not among the
  sources); the four states the spec lists are the four that \<open>commit\<close> switches on.\<close>

datatype ObjectState = Insert | Update | Delete | HardDelete

record TransactionScopeOptions =
  where' :: "string option"
  values' :: fieldmap

text \<open>The payload \<^verbatim>\<open>object: EntityBase[] | EntityBase | IRawQuery\<close>: an object
  created as an entity (by reference; whether it still is an instance of \<open>EntityBase\<close>
  is decided by its prototype), an array of them, or a raw-query descriptor.\<close>

datatype payload =
    Instance ref
  | Collection "ref list"
  | RawQueryObject IRawQuery

record TransactionScopeObject =
  type :: TransactionCollectionEnum
  object :: payload
  objectState :: "ObjectState option"
  options :: "TransactionScopeOptions option"

record TransactionScope =
  transactionObjects :: "TransactionScopeObject list"
  hooks :: "HooksMetaData list"

definition push :: "TransactionScopeObject \<Rightarrow> TransactionScope \<Rightarrow> TransactionScope" where
  "push t s = s\<lparr>transactionObjects := transactionObjects s @ [t]\<rparr>"

subsection \<open>Staging operations\<close>

definition addRawQuery :: "string \<Rightarrow> jsvalue list \<Rightarrow> TransactionScope \<Rightarrow> TransactionScope" where
  "addRawQuery q ps s =
     push \<lparr>type = RawQuery, object = RawQueryObject \<lparr>query = q, parameters = ps\<rparr>,
           objectState = None, options = None\<rparr> s"

definition resetTransactionObjects :: "TransactionScope \<Rightarrow> TransactionScope" where
  "resetTransactionObjects s = s\<lparr>transactionObjects := []\<rparr>"

definition add :: "ref \<Rightarrow> TransactionScope \<Rightarrow> TransactionScope" where
  "add obj s =
     push \<lparr>type = EntityCollection, object = Instance obj,
           objectState = Some Insert, options = None\<rparr> s"

definition addCollection :: "ref list \<Rightarrow> TransactionScope \<Rightarrow> TransactionScope" where
  "addCollection collection s =
     push \<lparr>type = BulkEntityCollnection, object = Collection collection,
           objectState = Some Insert, options = None\<rparr> s"

definition update :: "ref \<Rightarrow> TransactionScope \<Rightarrow> TransactionScope" where
  "update obj s =
     push \<lparr>type = EntityCollection, object = Instance obj,
           objectState = Some Update, options = None\<rparr> s"


definition filterHooks :: "HookType \<Rightarrow> TransactionScope \<Rightarrow> HooksMetaData list" where
  "filterHooks ty s = filter (\<lambda>hook. hookType hook = ty) (hooks s)"

definition excludeHooks :: "HookType \<Rightarrow> TransactionScope \<Rightarrow> HooksMetaData list" where
  "excludeHooks ty s = filter (\<lambda>hook. hookType hook \<noteq> ty) (hooks s)"


definition resetAfterCommit :: "TransactionScope \<Rightarrow> TransactionScope" where
  "resetAfterCommit s = s\<lparr>hooks := excludeHooks AfterCommit s\<rparr>"

text \<open>The loop \<^verbatim>\<open>for (const [key, value] of Object.entries(options.values))\<close> of both
  custom-values methods: a value that is not a function is assigned with
  \<^verbatim>\<open>obj[key] = value\<close>.\<close>

fun assign_values :: "fieldmap \<Rightarrow> EntityBase \<Rightarrow> EntityBase" where
  "assign_values [] obj = obj"
| "assign_values ((key, v) # kvs) obj =
     assign_values kvs (if \<not> is_function v then set_prop obj key v else obj)"

definition where_truthy :: "TransactionScopeOptions \<Rightarrow> bool" where
  "where_truthy opts = (case where' opts of None \<Rightarrow> False | Some w \<Rightarrow> truthy (JStr w))"

text \<open>\<open>insertWithCustomValues\<close> returns the store and the coordinator as it leaves them,
  and the exception it throws, if any.\<close>

definition insertWithCustomValues ::
  "ref \<Rightarrow> TransactionScopeOptions \<Rightarrow> store \<times> TransactionScope
     \<Rightarrow> (store \<times> TransactionScope) \<times> exn option" where
  "insertWithCustomValues obj opts hs =
     (case hs of (h, s) \<Rightarrow>
        if where_truthy opts
        then ((h, s), Some (BadRequestException ''can't pass criteria when inserting values''))
        else ((h(obj := assign_values (values' opts) (h obj)),
               push \<lparr>type = EntityCollection, object = Instance obj,
                     objectState = Some Insert, options = Some opts\<rparr> s), None))"

definition updateWithCustomValues ::
  "ref \<Rightarrow> TransactionScopeOptions \<Rightarrow> store \<times> TransactionScope \<Rightarrow> store \<times> TransactionScope" where
  "updateWithCustomValues obj opts hs =
     (case hs of (h, s) \<Rightarrow>
        (h(obj := assign_values (values' opts) (h obj)),
         push \<lparr>type = EntityCollection, object = Instance obj,
               objectState = Some Update, options = Some opts\<rparr> s))"

text \<open>\<open>updateCollection\<close>: the \<^verbatim>\<open>for\<close> loop returns early at the first element whose
  \<open>entitySnapshot\<close> is truthy, after staging every element with \<open>update\<close>.\<close>

fun any_snapshot :: "store \<Rightarrow> ref list \<Rightarrow> bool" where
  "any_snapshot h [] = False"
| "any_snapshot h (col # cols) =
     (if truthy (entitySnapshot (h col)) then True else any_snapshot h cols)"

definition updateCollection :: "store \<Rightarrow> ref list \<Rightarrow> TransactionScope \<Rightarrow> TransactionScope" where
  "updateCollection h collection s =
     (if any_snapshot h collection
      then foldl (\<lambda>s' obj. update obj s') s collection
      else push \<lparr>type = EntityCollection, object = Collection collection,
                 objectState = Some Update, options = None\<rparr> s)"

definition delete :: "ref \<Rightarrow> TransactionScope \<Rightarrow> TransactionScope" where
  "delete obj s =
     push \<lparr>type = EntityCollection, object = Instance obj,
           objectState = Some Delete, options = None\<rparr> s"

definition hardDelete :: "ref \<Rightarrow> TransactionScope \<Rightarrow> TransactionScope" where
  "hardDelete obj s =
     push \<lparr>type = EntityCollection, object = Instance obj,
           objectState = Some HardDelete, options = None\<rparr> s"

definition deleteCollection :: "ref list \<Rightarrow> TransactionScope \<Rightarrow> TransactionScope" where
  "deleteCollection collection s =
     push \<lparr>type = BulkEntityCollnection, object = Collection collection,
           objectState = Some Delete, options = None\<rparr> s"

definition hardDeleteCollection :: "ref list \<Rightarrow> TransactionScope \<Rightarrow> TransactionScope" where
  "hardDeleteCollection collection s =
     push \<lparr>type = BulkEntityCollnection, object = Collection collection,
           objectState = Some HardDelete, options = None\<rparr> s"

subsection \<open>The datastore, seen from the coordinator\<close>

text \<open>
  The calls \<open>commit\<close> makes on the transactional entity manager. \<^verbatim>\<open>save\<close> is one
  method; it has two constructors here because the non-bulk path passes it the payload
  of a record and the bulk path passes it the list built by
  \<open>extractCollectionsFromTransactions\<close>, whose declared element type is
  \<^verbatim>\<open>TransactionScopeObject | EntityBase\<close>. \<^verbatim>\<open>softRemove\<close> and \<^verbatim>\<open>remove\<close>
  carry the options argument they are given, which has the type of \<open>saveOptions\<close>.
\<close>

datatype SaveOptions = SaveOptions fieldmap

datatype RemoveOptions = RemoveOptions fieldmap

datatype bulk_item =
    Wrapper TransactionScopeObject
  | Entity ref

datatype db_call =
    DbSave payload "SaveOptions option"
  | DbSaveAll "bulk_item list" "SaveOptions option"
  | DbSoftRemove payload "SaveOptions option"
  | DbRemove payload "SaveOptions option"
  | DbUpdate jsvalue jsvalue fieldmap
  | DbInsert jsvalue fieldmap
  | DbQuery jsvalue jsvalue

text \<open>What happens during one \<open>commit\<close>, in order: the transaction's boundaries, every
  datastore call issued, every \<^verbatim>\<open>console.error\<close>, every listener invoked.\<close>

datatype event =
    StartTransaction
  | CommitTransaction
  | RollbackTransaction
  | Call db_call
  | ConsoleError string
  | Invoke HooksMetaData

record run =
  heap :: store
  trace :: "event list"

definition emit :: "event \<Rightarrow> run \<Rightarrow> run" where
  "emit ev r = r\<lparr>trace := trace r @ [ev]\<rparr>"

text \<open>
  The collaborators are parameters. The datastore answers a call, given everything that
  happened before it in this commit, with an error or a result; of a result only the
  first generated map of an insert (\<^verbatim>\<open>generatedMaps[0]\<close>, possibly \<open>undefined\<close>) is
  read. The transaction can fail to start and fail to commit. \<open>getPropertiesToUpdate\<close>
  is the changed-fields getter of the missing \<open>EntityBase\<close>, and \<open>mergeDeep\<close> is
  TypeORM's \<^verbatim>\<open>OrmUtils.mergeDeep\<close> on an entity.
\<close>

record world =
  getPropertiesToUpdate :: "EntityBase \<Rightarrow> fieldmap"
  mergeDeep :: "EntityBase \<Rightarrow> fieldmap option \<Rightarrow> EntityBase"
  startTransaction :: "exn option"
  respond :: "event list \<Rightarrow> db_call \<Rightarrow> exn + fieldmap option"
  commitTransaction :: "event list \<Rightarrow> exn option"

definition perform :: "world \<Rightarrow> db_call \<Rightarrow> run \<Rightarrow> (exn + fieldmap option) \<times> run" where
  "perform w c r = (respond w (trace r) c, emit (Call c) r)"

text \<open>An awaited call whose result is not used.\<close>

definition call :: "world \<Rightarrow> db_call \<Rightarrow> run \<Rightarrow> run \<times> exn option" where
  "call w c r =
     (case perform w c r of
        (Inl e, r') \<Rightarrow> (r', Some e)
      | (Inr g, r') \<Rightarrow> (r', None))"

subsection \<open>Commit\<close>

text \<open>Property reads on a payload: \<^verbatim>\<open>rawquery.query\<close>, \<^verbatim>\<open>rawquery.parameters\<close>
  after the cast \<^verbatim>\<open>transaction.object as IRawQuery\<close>, and
  \<^verbatim>\<open>entity.constructor.name\<close>.\<close>

fun payload_query :: "store \<Rightarrow> payload \<Rightarrow> jsvalue" where
  "payload_query h (RawQueryObject q) = JStr (query q)"
| "payload_query h (Instance e) = get_prop (h e) ''query''"
| "payload_query h (Collection es) = JUndefined"

fun payload_parameters :: "store \<Rightarrow> payload \<Rightarrow> jsvalue" where
  "payload_parameters h (RawQueryObject q) = JArr (parameters q)"
| "payload_parameters h (Instance e) = get_prop (h e) ''parameters''"
| "payload_parameters h (Collection es) = JUndefined"

fun constructor_name :: "store \<Rightarrow> payload \<Rightarrow> exn + jsvalue" where
  "constructor_name h (Instance e) = entity_constructor_name (h e)"
| "constructor_name h (Collection es) = Inr (JStr ''Array'')"
| "constructor_name h (RawQueryObject q) = Inr (JStr ''Object'')"

text \<open>\<^verbatim>\<open>OrmUtils.mergeDeep(transaction.object, insertResult)\<close>: only entities live in the
  store, so a merge onto an array or a raw-query descriptor leaves the store as it is.\<close>

fun merge_onto :: "world \<Rightarrow> payload \<Rightarrow> fieldmap option \<Rightarrow> run \<Rightarrow> run" where
  "merge_onto w (Instance e) g r = r\<lparr>heap := (heap r)(e := mergeDeep w (heap r e) g)\<rparr>"
| "merge_onto w (Collection es) g r = r"
| "merge_onto w (RawQueryObject q) g r = r"

text \<open>\<^verbatim>\<open>transaction.options.where ? transaction.options.where : { id: entity.id }\<close>.\<close>

definition criteria :: "TransactionScopeOptions \<Rightarrow> EntityBase \<Rightarrow> jsvalue" where
  "criteria opts entity =
     (case where' opts of
        Some w \<Rightarrow> if truthy (JStr w) then JStr w else JObj [(''id'', entity_id entity)]
      | None \<Rightarrow> JObj [(''id'', entity_id entity)])"

text \<open>The body of the non-bulk loop (lines 285 to 354): one queue record.\<close>

definition dispatch ::
  "world \<Rightarrow> SaveOptions option \<Rightarrow> TransactionScopeObject \<Rightarrow> run \<Rightarrow> run \<times> exn option" where
  "dispatch w saveOptions transaction r =
     (if type transaction = RawQuery
      then call w (DbQuery (payload_query (heap r) (object transaction))
                           (payload_parameters (heap r) (object transaction))) r
      else if type transaction = EntityCollection \<or> type transaction = BulkEntityCollnection
      then
        (case objectState transaction of
           Some Delete \<Rightarrow> call w (DbSoftRemove (object transaction) saveOptions) r
         | Some HardDelete \<Rightarrow> call w (DbRemove (object transaction) saveOptions) r
         | Some Update \<Rightarrow>
             (case object transaction of
                Instance e \<Rightarrow>
                  if is_instance (heap r e)
                  then
                    if truthy (entitySnapshot (heap r e))
                    then
                      (case entity_constructor_name (heap r e) of
                         Inl x \<Rightarrow> (r, Some x)
                       | Inr entityClass \<Rightarrow>
                           call w (DbUpdate entityClass
                                            (JObj [(''id'', entity_id (heap r e))])
                                            (getPropertiesToUpdate w (heap r e))) r)
                    else
                      (case options transaction of
                         Some opts \<Rightarrow>
                           (case entity_constructor_name (heap r e) of
                              Inl x \<Rightarrow> (r, Some x)
                            | Inr entityClass \<Rightarrow>
                                call w (DbUpdate entityClass
                                                 (criteria opts (heap r e))
                                                 (values' opts)) r)
                       | None \<Rightarrow> call w (DbSave (Instance e) saveOptions) r)
                  else
                    (emit (ConsoleError ''ENTITY NOT AN INSTANCE OF ENTITY BASE'') r,
                     Some (Error ''Entity is not an instance of entity base''))
              | Collection es \<Rightarrow> call w (DbSave (Collection es) saveOptions) r
              | RawQueryObject q \<Rightarrow>
                  (emit (ConsoleError ''ENTITY NOT AN INSTANCE OF ENTITY BASE'') r,
                   Some (Error ''Entity is not an instance of entity base'')))
         | Some Insert \<Rightarrow>
             (case options transaction of
                Some opts \<Rightarrow>
                  (case constructor_name (heap r) (object transaction) of
                     Inl x \<Rightarrow> (r, Some x)
                   | Inr entityClass \<Rightarrow>
                       (case perform w (DbInsert entityClass (values' opts)) r of
                          (Inl e, r') \<Rightarrow> (r', Some e)
                        | (Inr insertResult, r') \<Rightarrow>
                            (merge_onto w (object transaction) insertResult r', None)))
              | None \<Rightarrow> call w (DbSave (object transaction) saveOptions) r)
         | None \<Rightarrow> (r, None))
      else (r, None))"

text \<open>\<^verbatim>\<open>for (const transaction of this.transactionObjects)\<close>: the first record that
  throws ends the loop.\<close>

fun replay ::
  "world \<Rightarrow> SaveOptions option \<Rightarrow> TransactionScopeObject list \<Rightarrow> run \<Rightarrow> run \<times> exn option" where
  "replay w saveOptions [] r = (r, None)"
| "replay w saveOptions (transaction # rest) r =
     (case dispatch w saveOptions transaction r of
        (r', Some e) \<Rightarrow> (r', Some e)
      | (r', None) \<Rightarrow> replay w saveOptions rest r')"

text \<open>
  \<open>extractCollectionsFromTransactions\<close> (lines 245 to 263). A record of type
  \<open>EntityCollection\<close> is pushed as it is (\<^verbatim>\<open>entityCollection.push(trObj)\<close>); a record of
  type \<open>BulkEntityCollnection\<close> has its payload spread, which throws a \<open>TypeError\<close> when
  the payload is not an array; any other record is pushed, as it is, on the raw-query list
  (\<^verbatim>\<open>rawQueryCollection.push(trObj as unknown as IRawQuery)\<close>).
\<close>

fun extract_loop ::
  "TransactionScopeObject list \<Rightarrow> bulk_item list \<Rightarrow> TransactionScopeObject list
     \<Rightarrow> exn + bulk_item list \<times> TransactionScopeObject list" where
  "extract_loop [] entityCollection rawQueryCollection =
     Inr (entityCollection, rawQueryCollection)"
| "extract_loop (trObj # rest) entityCollection rawQueryCollection =
     (if type trObj = EntityCollection
      then extract_loop rest (entityCollection @ [Wrapper trObj]) rawQueryCollection
      else if type trObj = BulkEntityCollnection
      then (case object trObj of
              Collection obj \<Rightarrow>
                extract_loop rest (entityCollection @ map Entity obj) rawQueryCollection
            | Instance e \<Rightarrow> Inl (TypeError ''obj is not iterable'')
            | RawQueryObject q \<Rightarrow> Inl (TypeError ''obj is not iterable''))
      else extract_loop rest entityCollection (rawQueryCollection @ [trObj]))"

definition extractCollectionsFromTransactions ::
  "TransactionScopeObject list \<Rightarrow> exn + bulk_item list \<times> TransactionScopeObject list" where
  "extractCollectionsFromTransactions transactionObjects' =
     extract_loop transactionObjects' [] []"

text \<open>
  The bulk path reads \<^verbatim>\<open>rawquery.query\<close> and \<^verbatim>\<open>rawquery.parameters\<close> (line 280) off
  the elements of the raw-query list, which are queue records. A
  \<open>TransactionScopeObject\<close> has the fields \<open>type\<close>, \<open>object\<close>, \<open>objectState\<close> and
  \<open>options\<close>, and no field \<open>query\<close> or \<open>parameters\<close>: both reads give \<open>undefined\<close>.
\<close>

definition record_query :: "TransactionScopeObject \<Rightarrow> jsvalue" where
  "record_query trObj = JUndefined"

definition record_parameters :: "TransactionScopeObject \<Rightarrow> jsvalue" where
  "record_parameters trObj = JUndefined"

fun run_raw_queries ::
  "world \<Rightarrow> TransactionScopeObject list \<Rightarrow> run \<Rightarrow> run \<times> exn option" where
  "run_raw_queries w [] r = (r, None)"
| "run_raw_queries w (rawquery # rest) r =
     (case call w (DbQuery (record_query rawquery) (record_parameters rawquery)) r of
        (r', Some e) \<Rightarrow> (r', Some e)
      | (r', None) \<Rightarrow> run_raw_queries w rest r')"

text \<open>The callback handed to \<^verbatim>\<open>manager.transaction\<close> (lines 271 to 357).\<close>

definition runInTransaction ::
  "world \<Rightarrow> SaveOptions option \<Rightarrow> bool \<Rightarrow> TransactionScopeObject list \<Rightarrow> run
     \<Rightarrow> run \<times> exn option" where
  "runInTransaction w saveOptions performEntityBulkUpsert queue r =
     (if performEntityBulkUpsert
      then
        (case extractCollectionsFromTransactions queue of
           Inl e \<Rightarrow> (r, Some e)
         | Inr (entityCollection, rawQueryCollection) \<Rightarrow>
             (case call w (DbSaveAll entityCollection saveOptions) r of
                (r', Some e) \<Rightarrow> (r', Some e)
              | (r', None) \<Rightarrow>
                  if length rawQueryCollection > 0
                  then run_raw_queries w rawQueryCollection r'
                  else (r', None)))
      else replay w saveOptions queue r)"

text \<open>
  \<^verbatim>\<open>manager.transaction(work)\<close>, by the datastore contract of the spec: it runs the work
  inside one transaction, rolls back and rethrows if the work throws, and commits
  otherwise. Starting and committing can fail as well.
\<close>

definition transaction :: "world \<Rightarrow> (run \<Rightarrow> run \<times> exn option) \<Rightarrow> run \<Rightarrow> run \<times> exn option" where
  "transaction w work r =
     (case startTransaction w of
        Some e \<Rightarrow> (r, Some e)
      | None \<Rightarrow>
          (case work (emit StartTransaction r) of
             (r', Some e) \<Rightarrow> (emit RollbackTransaction r', Some e)
           | (r', None) \<Rightarrow>
               (case commitTransaction w (trace r') of
                  Some e \<Rightarrow> (emit RollbackTransaction r', Some e)
                | None \<Rightarrow> (emit CommitTransaction r', None))))"

text \<open>\<^verbatim>\<open>afterCommitsHooks.map((hook) => hook.listener(hook.data))\<close>: the listeners are
  called one after the other; a listener that throws ends the \<open>map\<close>.\<close>

fun invoke_listeners :: "HooksMetaData list \<Rightarrow> run \<Rightarrow> run \<times> exn option" where
  "invoke_listeners [] r = (r, None)"
| "invoke_listeners (hook # rest) r =
     (case listener hook (data hook) of
        Throws e \<Rightarrow> (emit (Invoke hook) r, Some e)
      | Returns p \<Rightarrow> invoke_listeners rest (emit (Invoke hook) r))"

text \<open>\<open>processAfterCommitHooks\<close> (lines 232 to 243). \<^verbatim>\<open>Promise.allSettled\<close> waits for
  the returned promises and never rejects; the \<open>catch\<close> block sees what the \<open>map\<close>
  threw; the \<open>finally\<close> block resets the registry.\<close>

definition processAfterCommitHooks ::
  "TransactionScope \<Rightarrow> run \<Rightarrow> TransactionScope \<times> run \<times> exn option" where
  "processAfterCommitHooks s r =
     (case invoke_listeners (filterHooks AfterCommit s) r of
        (r', Some e) \<Rightarrow>
          (resetAfterCommit s,
           emit (ConsoleError ''error while executing transaction scope AfterCommit Hooks'') r',
           Some e)
      | (r', None) \<Rightarrow> (resetAfterCommit s, r', None))"

text \<open>The result of \<open>commit\<close>: the coordinator and the store afterwards, what happened,
  and the error raised to the caller, if any.\<close>

record outcome =
  scope :: TransactionScope
  final :: run
  raised :: "exn option"

definition commit ::
  "world \<Rightarrow> SaveOptions option \<Rightarrow> RemoveOptions option \<Rightarrow> bool \<Rightarrow> store \<Rightarrow> TransactionScope
     \<Rightarrow> outcome" where
  "commit w saveOptions removeOptions performEntityBulkUpsert h s =
     (case transaction w
             (runInTransaction w saveOptions performEntityBulkUpsert (transactionObjects s))
             \<lparr>heap = h, trace = []\<rparr> of
        (r, Some e) \<Rightarrow>
          \<lparr>scope = resetTransactionObjects s, final = r, raised = Some e\<rparr>
      | (r, None) \<Rightarrow>
          (case processAfterCommitHooks (resetTransactionObjects s) r of
             (s', r', x) \<Rightarrow> \<lparr>scope = s', final = r', raised = x\<rparr>))"

subsection \<open>Observations on a trace\<close>

text \<open>The listeners invoked, in order, and the datastore calls issued, in order.\<close>

fun invoked :: "event list \<Rightarrow> HooksMetaData list" where
  "invoked [] = []"
| "invoked (Invoke hook # evs) = hook # invoked evs"
| "invoked (ev # evs) = invoked evs"

fun calls :: "event list \<Rightarrow> db_call list" where
  "calls [] = []"
| "calls (Call c # evs) = c # calls evs"
| "calls (ev # evs) = calls evs"

fun throws :: "HooksMetaData \<Rightarrow> bool" where
  "throws hook = (case listener hook (data hook) of Throws e \<Rightarrow> True | Returns p \<Rightarrow> False)"

text \<open>The hooks up to and including the first whose listener throws.\<close>

fun attempted :: "HooksMetaData list \<Rightarrow> HooksMetaData list" where
  "attempted [] = []"
| "attempted (hook # rest) = (if throws hook then [hook] else hook # attempted rest)"

text \<open>What the work inside a transaction can emit: datastore calls and console output.\<close>

fun work_event :: "event \<Rightarrow> bool" where
  "work_event (Call c) = True"
| "work_event (ConsoleError m) = True"
| "work_event ev = False"

text \<open>
  What \<open>commit\<close>, without bulk upsert, does with the record \<open>t\<close> that follows the
  records \<open>ts\<close> in the queue, when replaying \<open>ts\<close> left the run \<open>r1\<close>: it issues the
  call \<open>c\<close> next. If the datastore fails the call with \<open>e\<close>, \<open>commit\<close> raises \<open>e\<close>
  and its trace is that of \<open>r1\<close>, the call and the rollback, so no later record is
  replayed. Otherwise the replay of \<open>ts @ [t]\<close> has ended without error in \<open>r1\<close>
  extended by the call, and the trace of \<open>commit\<close> begins with the trace of \<open>r1\<close>
  followed by the call.
\<close>

definition issues_next ::
  "world \<Rightarrow> SaveOptions option \<Rightarrow> RemoveOptions option \<Rightarrow> store \<Rightarrow> TransactionScope
     \<Rightarrow> TransactionScopeObject list \<Rightarrow> TransactionScopeObject \<Rightarrow> run \<Rightarrow> db_call \<Rightarrow> bool" where
  "issues_next w so ro h s ts t r1 c =
     (case respond w (trace r1) c of
        Inl e \<Rightarrow>
          raised (commit w so ro False h s) = Some e \<and>
          trace (final (commit w so ro False h s)) = trace r1 @ [Call c, RollbackTransaction]
      | Inr g \<Rightarrow>
          replay w so (ts @ [t]) \<lparr>heap = h, trace = [StartTransaction]\<rparr> =
            (emit (Call c) r1, None) \<and>
          prefix (trace r1 @ [Call c]) (trace (final (commit w so ro False h s))))"

subsection \<open>Concrete inputs\<close>

text \<open>A store in which every address holds a \<open>User\<close> whose \<open>id\<close> is its address and
  which has no snapshot, and one in which the entity at address 1 has a snapshot.\<close>

definition example_store :: store where
  "example_store =
     (\<lambda>a. \<lparr>className = ''User'', props = [''id'' \<mapsto> JNum (int a)],
           prototype = ClassPrototype\<rparr>)"

definition snapshot_store :: store where
  "snapshot_store =
     example_store(1 := \<lparr>className = ''User'',
                          props = [''id'' \<mapsto> JNum 1, ''name'' \<mapsto> JStr ''new'',
                                   ''entitySnapshot'' \<mapsto> JObj [(''name'', JStr ''old'')]],
                          prototype = ClassPrototype\<rparr>)"

definition empty_scope :: TransactionScope where
  "empty_scope = \<lparr>transactionObjects = [], hooks = []\<rparr>"

text \<open>A datastore that accepts everything, and one whose every call fails.\<close>

definition reliable_world :: world where
  "reliable_world =
     \<lparr>getPropertiesToUpdate = (\<lambda>e. [(''name'', get_prop e ''name'')]),
      mergeDeep = (\<lambda>e g. e),
      startTransaction = None,
      respond = (\<lambda>tr c. Inr None),
      commitTransaction = (\<lambda>tr. None)\<rparr>"

definition failing_world :: world where
  "failing_world = reliable_world\<lparr>respond := (\<lambda>tr c. Inl (Thrown ''connection lost''))\<rparr>"

text \<open>Three hooks: one returns, one returns a promise that rejects, one throws.\<close>

definition quiet_hook :: HooksMetaData where
  "quiet_hook =
     \<lparr>listener = (\<lambda>d. Returns None), data = [(''name'', JStr ''Roronoa Zoro'')],
      hookType = AfterCommit\<rparr>"

definition rejecting_hook :: HooksMetaData where
  "rejecting_hook =
     \<lparr>listener = (\<lambda>d. Returns (Some (Thrown ''rejected''))), data = [],
      hookType = AfterCommit\<rparr>"

definition throwing_hook :: HooksMetaData where
  "throwing_hook =
     \<lparr>listener = (\<lambda>d. Throws (Thrown ''thrown'')), data = [],
      hookType = AfterCommit\<rparr>"

text \<open>A coordinator with one staged insert and two hooks that do not throw, and one with
  an empty queue and a throwing hook between two others.\<close>

definition quiet_scope :: TransactionScope where
  "quiet_scope =
     \<lparr>transactionObjects =
        [\<lparr>type = EntityCollection, object = Instance 0, objectState = Some Insert,
          options = None\<rparr>],
      hooks = [quiet_hook, rejecting_hook]\<rparr>"

definition loud_scope :: TransactionScope where
  "loud_scope =
     \<lparr>transactionObjects = [], hooks = [quiet_hook, throwing_hook, rejecting_hook]\<rparr>"

text \<open>A queue with one record for every dispatch case of the non-bulk replay, for the
  store in which the entity at address 1 has a snapshot.\<close>

definition mixed_scope :: TransactionScope where
  "mixed_scope =
     \<lparr>transactionObjects =
        [\<lparr>type = RawQuery,
          object = RawQueryObject \<lparr>query = ''SELECT 1'', parameters = [JNum 1]\<rparr>,
          objectState = None, options = None\<rparr>,
         \<lparr>type = EntityCollection, object = Instance 0, objectState = Some Delete,
          options = None\<rparr>,
         \<lparr>type = BulkEntityCollnection, object = Collection [0, 2],
          objectState = Some HardDelete, options = None\<rparr>,
         \<lparr>type = EntityCollection, object = Instance 1, objectState = Some Update,
          options = None\<rparr>,
         \<lparr>type = EntityCollection, object = Instance 0, objectState = Some Update,
          options = Some \<lparr>where' = None, values' = [(''stamp'', JFun ''stamp'')]\<rparr>\<rparr>,
         \<lparr>type = EntityCollection, object = Instance 0, objectState = Some Update,
          options = None\<rparr>],
      hooks = []\<rparr>"

text \<open>A coordinator with one staged insert and a throwing hook registered before a
  quiet one.\<close>

definition stale_scope :: TransactionScope where
  "stale_scope =
     \<lparr>transactionObjects =
        [\<lparr>type = EntityCollection, object = Instance 0, objectState = Some Insert,
          options = None\<rparr>],
      hooks = [throwing_hook, quiet_hook]\<rparr>"


definition empty_where_options :: TransactionScopeOptions where
  "empty_where_options = \<lparr>where' = Some [], values' = [(''name'', JStr ''a'')]\<rparr>"


text \<open>A queue with an insert, a soft delete and a hard delete of a collection.\<close>

definition deleting_scope :: TransactionScope where
  "deleting_scope =
     hardDeleteCollection [2, 3] (delete 1 (add 0 empty_scope))"

section \<open>Properties\<close>

subsection \<open>What the work inside a transaction emits\<close>

lemma invoked_append: "invoked (xs @ ys) = invoked xs @ invoked ys"
  by (induction xs rule: invoked.induct) auto

lemma work_invoked: "list_all work_event evs \<Longrightarrow> invoked evs = []"
  by (induction evs rule: invoked.induct) auto

lemma call_eq: "call w c r = (emit (Call c) r, case respond w (trace r) c of Inl e \<Rightarrow> Some e | Inr g \<Rightarrow> None)"
  by (simp add: call_def perform_def split: sum.splits)

lemma merge_onto_trace: "trace (merge_onto w p g r) = trace r"
  by (cases p) simp_all

lemma dispatch_appends:
  "\<exists>evs. trace (fst (dispatch w so t r)) = trace r @ evs \<and> list_all work_event evs"
proof (cases "type t")
  case RawQuery
  then show ?thesis by (simp add: dispatch_def call_eq emit_def)
next
  case EntityCollection
  then show ?thesis
    by (simp add: dispatch_def call_eq perform_def emit_def merge_onto_trace
        split: option.split ObjectState.split payload.split sum.split)
next
  case BulkEntityCollnection
  then show ?thesis
    by (simp add: dispatch_def call_eq perform_def emit_def merge_onto_trace
        split: option.split ObjectState.split payload.split sum.split)
qed

lemma replay_appends:
  "\<exists>evs. trace (fst (replay w so ts r)) = trace r @ evs \<and> list_all work_event evs"
proof (induction ts arbitrary: r)
  case Nil
  show ?case by simp
next
  case (Cons t ts)
  obtain r1 x where d: "dispatch w so t r = (r1, x)" by (cases "dispatch w so t r")
  from dispatch_appends [of w so t r] d obtain evs1
    where e1: "trace r1 = trace r @ evs1" "list_all work_event evs1" by auto
  show ?case
  proof (cases x)
    case None
    from Cons.IH [of r1] obtain evs2
      where e2: "trace (fst (replay w so ts r1)) = trace r1 @ evs2" "list_all work_event evs2"
      by blast
    with e1 d None show ?thesis by simp
  next
    case (Some e)
    with e1 d show ?thesis by simp
  qed
qed

lemma run_raw_queries_appends:
  "\<exists>evs. trace (fst (run_raw_queries w qs r)) = trace r @ evs \<and> list_all work_event evs"
proof (induction qs arbitrary: r)
  case Nil
  show ?case by simp
next
  case (Cons q qs)
  let ?c = "DbQuery (record_query q) (record_parameters q)"
  from Cons.IH [of "emit (Call ?c) r"] obtain evs2
    where e2: "trace (fst (run_raw_queries w qs (emit (Call ?c) r))) = trace r @ Call ?c # evs2"
      "list_all work_event evs2"
    by (auto simp: emit_def)
  then show ?case
    by (simp add: call_eq emit_def split: sum.split)
qed

lemma runInTransaction_appends:
  "\<exists>evs. trace (fst (runInTransaction w so b ts r)) = trace r @ evs \<and> list_all work_event evs"
proof (cases b)
  case False
  then show ?thesis using replay_appends [of w so ts r] by (simp add: runInTransaction_def)
next
  case True
  show ?thesis
  proof (cases "extractCollectionsFromTransactions ts")
    case (Inl e)
    with True show ?thesis by (simp add: runInTransaction_def)
  next
    case (Inr p)
    obtain ec rq where p: "p = (ec, rq)" by (cases p)
    let ?c = "DbSaveAll ec so"
    from run_raw_queries_appends [of w rq "emit (Call ?c) r"] obtain evs2
      where e2: "trace (fst (run_raw_queries w rq (emit (Call ?c) r))) = trace r @ Call ?c # evs2"
        "list_all work_event evs2"
      by (auto simp: emit_def)
    with True Inr p show ?thesis
      by (simp add: runInTransaction_def call_eq emit_def split: sum.split)
  qed
qed






subsection \<open>Replay without bulk upsert\<close>

lemma replay_append:
  "replay w so (ts @ us) r =
     (case replay w so ts r of (r1, Some e) \<Rightarrow> (r1, Some e) | (r1, None) \<Rightarrow> replay w so us r1)"
  by (induction ts arbitrary: r) (simp_all split: prod.split option.split)

lemma replay_single: "replay w so [t] r = dispatch w so t r"
  by (simp split: prod.split option.split)

lemma nonbulk_single: "runInTransaction w so False [t] r = dispatch w so t r"
  by (simp add: runInTransaction_def split: prod.split option.split)

lemma entity_kind: "(t \<noteq> RawQuery) = (t = EntityCollection \<or> t = BulkEntityCollnection)"
  by (cases t) simp_all

subsection \<open>The hooks stage\<close>

lemma invoke_listeners_trace:
  "trace (fst (invoke_listeners hs r)) = trace r @ map Invoke (attempted hs)"
  by (induction hs arbitrary: r) (simp_all add: emit_def split: listener_result.split)

lemma invoke_listeners_heap: "heap (fst (invoke_listeners hs r)) = heap r"
  by (induction hs arbitrary: r) (simp_all add: emit_def split: listener_result.split)

lemma attempted_prefix: "attempted hs @ drop (length (attempted hs)) hs = hs"
  by (induction hs) simp_all

lemma invoke_listeners_returns:
  "snd (invoke_listeners hs r) = None \<Longrightarrow> attempted hs = hs"
  by (induction hs arbitrary: r) (simp_all split: listener_result.splits)

lemma invoke_listeners_quiet:
  "\<forall>hk \<in> set hs. \<not> throws hk \<Longrightarrow> snd (invoke_listeners hs r) = None"
  by (induction hs arbitrary: r) (simp_all split: listener_result.splits)

lemma invoke_listeners_thrower:
  "snd (invoke_listeners hs r) = Some e \<Longrightarrow> \<exists>hk \<in> set hs. listener hk (data hk) = Throws e"
  by (induction hs arbitrary: r) (simp_all split: listener_result.splits)

lemma invoke_listeners_throws:
  "\<exists>hk \<in> set hs. throws hk \<Longrightarrow> snd (invoke_listeners hs r) \<noteq> None"
  using invoke_listeners_returns [of hs r]
  by (induction hs arbitrary: r) (simp_all split: listener_result.splits)

lemma only_hook_type: "(hookType hk = AfterCommit) = True"
  by (cases "hookType hk") simp

lemma filterHooks_all: "filterHooks AfterCommit s = hooks s"
  by (simp add: filterHooks_def only_hook_type)

lemma excludeHooks_none: "excludeHooks AfterCommit s = []"
  by (simp add: excludeHooks_def only_hook_type)

lemma invoked_map_Invoke: "invoked (map Invoke hs) = hs"
  by (induction hs) simp_all

subsection \<open>The transaction and the whole commit\<close>

lemma transaction_committed:
  assumes "transaction w (runInTransaction w so b q) r0 = (rT, None)"
  shows "\<exists>evs. trace rT = trace r0 @ StartTransaction # evs @ [CommitTransaction] \<and>
           list_all work_event evs"
proof -
  let ?r1 = "emit StartTransaction r0"
  obtain r2 x where wk: "runInTransaction w so b q ?r1 = (r2, x)"
    by (cases "runInTransaction w so b q ?r1")
  from runInTransaction_appends [of w so b q ?r1] wk obtain evs where
    evs: "trace r2 = trace r0 @ StartTransaction # evs" "list_all work_event evs"
    by (auto simp: emit_def)
  from assms wk have "rT = emit CommitTransaction r2"
    by (simp add: transaction_def split: option.splits)
  with evs show ?thesis by (simp add: emit_def)
qed

lemma commit_failed:
  assumes "transaction w (runInTransaction w so b (transactionObjects s)) \<lparr>heap = h, trace = []\<rparr>
             = (rT, Some e)"
  shows "commit w so ro b h s =
           \<lparr>scope = resetTransactionObjects s, final = rT, raised = Some e\<rparr>"
  using assms by (simp add: commit_def)

lemma commit_committed:
  assumes "transaction w (runInTransaction w so b (transactionObjects s)) \<lparr>heap = h, trace = []\<rparr>
             = (rT, None)"
  shows "raised (commit w so ro b h s) = snd (invoke_listeners (hooks s) rT)"
    and "scope (commit w so ro b h s) = \<lparr>transactionObjects = [], hooks = []\<rparr>"
    and "heap (final (commit w so ro b h s)) = heap rT"
    and "trace (final (commit w so ro b h s)) =
           trace rT @ map Invoke (attempted (hooks s)) @
           (if raised (commit w so ro b h s) = None then []
            else [ConsoleError ''error while executing transaction scope AfterCommit Hooks''])"
proof -
  let ?s = "resetTransactionObjects s"
  obtain r' x where il: "invoke_listeners (hooks s) rT = (r', x)"
    by (cases "invoke_listeners (hooks s) rT")
  have tr: "trace r' = trace rT @ map Invoke (attempted (hooks s))"
    using invoke_listeners_trace [of "hooks s" rT] il by simp
  have hp: "heap r' = heap rT"
    using invoke_listeners_heap [of "hooks s" rT] il by simp
  have fh: "filterHooks AfterCommit ?s = hooks s"
    by (simp add: filterHooks_all resetTransactionObjects_def)
  have rs: "resetAfterCommit ?s = \<lparr>transactionObjects = [], hooks = []\<rparr>"
    by (simp add: resetAfterCommit_def excludeHooks_none resetTransactionObjects_def)
  have c: "commit w so ro b h s =
      \<lparr>scope = \<lparr>transactionObjects = [], hooks = []\<rparr>,
       final = (case x of None \<Rightarrow> r'
                | Some e \<Rightarrow> emit (ConsoleError ''error while executing transaction scope AfterCommit Hooks'') r'),
       raised = x\<rparr>"
    using assms il by (cases x) (simp_all add: commit_def processAfterCommitHooks_def fh rs)
  show "raised (commit w so ro b h s) = snd (invoke_listeners (hooks s) rT)"
    by (simp add: c il)
  show "scope (commit w so ro b h s) = \<lparr>transactionObjects = [], hooks = []\<rparr>"
    by (simp add: c)
  show "heap (final (commit w so ro b h s)) = heap rT"
    by (cases x) (simp_all add: c hp emit_def)
  show "trace (final (commit w so ro b h s)) =
           trace rT @ map Invoke (attempted (hooks s)) @
           (if raised (commit w so ro b h s) = None then []
            else [ConsoleError ''error while executing transaction scope AfterCommit Hooks''])"
    by (cases x) (simp_all add: c tr emit_def)
qed

lemma transaction_invoked:
  "invoked (trace (fst (transaction w (runInTransaction w so b q) r0))) = invoked (trace r0)"
proof -
  let ?r1 = "emit StartTransaction r0"
  obtain r2 x where wk: "runInTransaction w so b q ?r1 = (r2, x)"
    by (cases "runInTransaction w so b q ?r1")
  from runInTransaction_appends [of w so b q ?r1] wk obtain evs where
    evs: "trace r2 = trace r0 @ StartTransaction # evs" "list_all work_event evs"
    by (auto simp: emit_def)
  have "invoked (trace r2) = invoked (trace r0)"
    using evs by (simp add: invoked_append work_invoked)
  then show ?thesis
    using wk by (simp add: transaction_def emit_def invoked_append split: option.split)
qed

lemma commit_returns_invoked:
  assumes "raised (commit w so ro b h s) = None"
  shows "invoked (trace (final (commit w so ro b h s))) = hooks s"
proof -
  let ?t = "transaction w (runInTransaction w so b (transactionObjects s)) \<lparr>heap = h, trace = []\<rparr>"
  obtain rT x where t: "?t = (rT, x)" by (cases ?t)
  show ?thesis
  proof (cases x)
    case (Some e)
    with t assms show ?thesis by (simp add: commit_failed)
  next
    case None
    with t have T: "?t = (rT, None)" by simp
    from transaction_invoked [of w so b "transactionObjects s" "\<lparr>heap = h, trace = []\<rparr>"] T
    have i: "invoked (trace rT) = []" by simp
    from assms commit_committed(1) [OF T, of ro]
    have "snd (invoke_listeners (hooks s) rT) = None" by simp
    then have a: "attempted (hooks s) = hooks s" by (rule invoke_listeners_returns)
    show ?thesis
      using assms by (simp add: commit_committed(4) [OF T] a i invoked_append invoked_map_Invoke)
  qed
qed

lemma commit_rolled_back:
  assumes "startTransaction w = None"
    and "runInTransaction w so b (transactionObjects s) \<lparr>heap = h, trace = [StartTransaction]\<rparr>
           = (r1, Some e)"
  shows "commit w so ro b h s =
      \<lparr>scope = resetTransactionObjects s, final = emit RollbackTransaction r1, raised = Some e\<rparr>"
  using assms by (simp add: commit_def transaction_def emit_def)

lemma commit_trace_extends:
  assumes "startTransaction w = None"
  shows "\<exists>evs. trace (final (commit w so ro b h s)) =
           trace (fst (runInTransaction w so b (transactionObjects s)
                         \<lparr>heap = h, trace = [StartTransaction]\<rparr>)) @ evs"
proof -
  let ?r0 = "\<lparr>heap = h, trace = [StartTransaction]\<rparr>"
  obtain r2 x where wk: "runInTransaction w so b (transactionObjects s) ?r0 = (r2, x)"
    by (cases "runInTransaction w so b (transactionObjects s) ?r0")
  show ?thesis
  proof (cases x)
    case (Some e)
    with wk commit_rolled_back [OF assms, of so b s h r2 e ro] show ?thesis
      by (simp add: emit_def)
  next
    case None
    show ?thesis
    proof (cases "commitTransaction w (trace r2)")
      case (Some e)
      with assms wk None have
        "transaction w (runInTransaction w so b (transactionObjects s)) \<lparr>heap = h, trace = []\<rparr>
           = (emit RollbackTransaction r2, Some e)"
        by (simp add: transaction_def emit_def)
      from commit_failed [OF this, of ro] wk show ?thesis by (simp add: emit_def)
    next
      case cn: None
      with assms wk None have T:
        "transaction w (runInTransaction w so b (transactionObjects s)) \<lparr>heap = h, trace = []\<rparr>
           = (emit CommitTransaction r2, None)"
        by (simp add: transaction_def emit_def)
      from commit_committed(4) [OF T, of ro] wk show ?thesis by (simp add: emit_def)
    qed
  qed
qed

lemma nonbulk_reaches:
  assumes "replay w so ts r0 = (r1, None)"
  shows "runInTransaction w so False (ts @ t # us) r0 =
           (case dispatch w so t r1 of
              (r2, Some e) \<Rightarrow> (r2, Some e)
            | (r2, None) \<Rightarrow> replay w so us r2)"
  using assms by (simp add: runInTransaction_def replay_append)

subsection \<open>AfterCommit hooks\<close>

text \<open>
  C4. The specification says that after a successful commit every registered AfterCommit
  hook is invoked exactly once, and that the failure of a hook is logged and re-raised to
  the caller of \<open>commit\<close>. Evaluated on a datastore that accepts everything: with the
  hooks \<open>quiet\<close> and \<open>rejecting\<close>, the listener of the second returns a promise that
  rejects, yet \<open>commit\<close> returns and logs nothing, since \<^verbatim>\<open>Promise.allSettled\<close>
  never rejects and the \<open>catch\<close> block is not reached. With the hooks \<open>quiet\<close>,
  \<open>throwing\<close> and \<open>rejecting\<close>, the throw of the second listener ends the \<open>map\<close>:
  it is logged and re-raised, the third listener is never invoked, and the registry is
  cleared all the same.
\<close>

theorem rejected_promise_is_swallowed_and_throw_skips_later_hooks:
  "listener rejecting_hook (data rejecting_hook) = Returns (Some (Thrown ''rejected'')) \<and>
   raised (commit reliable_world None None False example_store quiet_scope) = None \<and>
   trace (final (commit reliable_world None None False example_store quiet_scope)) =
     [StartTransaction, Call (DbSave (Instance 0) None), CommitTransaction,
      Invoke quiet_hook, Invoke rejecting_hook] \<and>
   raised (commit reliable_world None None False example_store loud_scope) =
     Some (Thrown ''thrown'') \<and>
   trace (final (commit reliable_world None None False example_store loud_scope)) =
     [StartTransaction, CommitTransaction, Invoke quiet_hook, Invoke throwing_hook,
      ConsoleError ''error while executing transaction scope AfterCommit Hooks''] \<and>
   hooks (scope (commit reliable_world None None False example_store loud_scope)) = []"
  by (simp add: commit_def transaction_def runInTransaction_def dispatch_def call_def
      perform_def emit_def processAfterCommitHooks_def filterHooks_def resetAfterCommit_def
      excludeHooks_def resetTransactionObjects_def reliable_world_def quiet_scope_def
      loud_scope_def quiet_hook_def rejecting_hook_def throwing_hook_def)

subsection \<open>A failed commit and the next one\<close>

text \<open>A commit whose transaction fails with \<open>e\<close> raises \<open>e\<close>, invokes no listener
  and leaves the hook registry as it was.\<close>

lemma failed_commit_keeps_registry:
  assumes "snd (transaction w (runInTransaction w so b (transactionObjects s))
                  \<lparr>heap = h, trace = []\<rparr>) = Some e"
  shows "raised (commit w so ro b h s) = Some e"
    and "invoked (trace (final (commit w so ro b h s))) = []"
    and "hooks (scope (commit w so ro b h s)) = hooks s"
proof -
  let ?t = "transaction w (runInTransaction w so b (transactionObjects s)) \<lparr>heap = h, trace = []\<rparr>"
  obtain rT where T: "?t = (rT, Some e)" using assms by (cases ?t) simp
  have c: "commit w so ro b h s = \<lparr>scope = resetTransactionObjects s, final = rT, raised = Some e\<rparr>"
    by (rule commit_failed [OF T])
  from transaction_invoked [of w so b "transactionObjects s" "\<lparr>heap = h, trace = []\<rparr>"] T
  have i: "invoked (trace rT) = []" by simp
  show "raised (commit w so ro b h s) = Some e" by (simp add: c)
  show "invoked (trace (final (commit w so ro b h s))) = []" by (simp add: c i)
  show "hooks (scope (commit w so ro b h s)) = hooks s"
    by (simp add: c resetTransactionObjects_def)
qed

text \<open>
  C9. The specification says that the hooks registered before a failing commit remain
  registered and are then executed by the next successful commit on the same instance.
  Evaluated with a throwing hook registered before a quiet one: the commit on a failing
  datastore raises, invokes nothing and keeps both hooks. The next commit on the same
  instance, with one more insert staged and a datastore that accepts everything, commits
  its transaction, invokes the throwing hook, logs and raises, and clears the registry:
  the quiet hook, registered before the failed commit, is never executed.
\<close>

theorem hook_kept_by_a_failed_commit_is_dropped_by_the_next:
  "raised (commit failing_world None None False example_store stale_scope) =
     Some (Thrown ''connection lost'') \<and>
   trace (final (commit failing_world None None False example_store stale_scope)) =
     [StartTransaction, Call (DbSave (Instance 0) None), RollbackTransaction] \<and>
   hooks (scope (commit failing_world None None False example_store stale_scope)) =
     [throwing_hook, quiet_hook] \<and>
   trace (final (commit reliable_world None None False example_store
                   (add 1 (scope (commit failing_world None None False example_store
                                    stale_scope))))) =
     [StartTransaction, Call (DbSave (Instance 1) None), CommitTransaction,
      Invoke throwing_hook,
      ConsoleError ''error while executing transaction scope AfterCommit Hooks''] \<and>
   raised (commit reliable_world None None False example_store
             (add 1 (scope (commit failing_world None None False example_store
                              stale_scope)))) = Some (Thrown ''thrown'') \<and>
   hooks (scope (commit reliable_world None None False example_store
                   (add 1 (scope (commit failing_world None None False example_store
                                    stale_scope))))) = []"
  by (simp add: commit_def transaction_def runInTransaction_def dispatch_def call_def
      perform_def emit_def processAfterCommitHooks_def filterHooks_def resetAfterCommit_def
      excludeHooks_def resetTransactionObjects_def failing_world_def reliable_world_def
      stale_scope_def add_def push_def quiet_hook_def throwing_hook_def)

subsection \<open>A record reached during replay\<close>





lemma commit_issues:
  assumes "startTransaction w = None"
    and "transactionObjects s = ts @ t # us"
    and "replay w so ts \<lparr>heap = h, trace = [StartTransaction]\<rparr> = (r1, None)"
    and "dispatch w so t r1 = call w c r1"
  shows "\<exists>evs. trace (final (commit w so ro False h s)) = trace r1 @ Call c # evs"
proof -
  let ?r0 = "\<lparr>heap = h, trace = [StartTransaction]\<rparr>"
  have "\<exists>evs. trace (fst (runInTransaction w so False (transactionObjects s) ?r0)) =
          trace r1 @ Call c # evs"
  proof (cases "respond w (trace r1) c")
    case (Inl e)
    then show ?thesis
      using nonbulk_reaches [OF assms(3), of t us]
      by (simp add: assms(2,4) call_eq emit_def)
  next
    case (Inr g)
    from replay_appends [of w so us "emit (Call c) r1"] obtain evs where
      "trace (fst (replay w so us (emit (Call c) r1))) = trace r1 @ Call c # evs"
      by (auto simp: emit_def)
    with Inr show ?thesis
      using nonbulk_reaches [OF assms(3), of t us]
      by (simp add: assms(2,4) call_eq)
  qed
  then obtain evs1 where 1: "trace (fst (runInTransaction w so False (transactionObjects s) ?r0)) =
          trace r1 @ Call c # evs1" ..
  from commit_trace_extends [OF assms(1), of so ro False h s] obtain evs2 where
    "trace (final (commit w so ro False h s)) =
       trace (fst (runInTransaction w so False (transactionObjects s) ?r0)) @ evs2" ..
  with 1 have "trace (final (commit w so ro False h s)) = trace r1 @ Call c # (evs1 @ evs2)"
    by simp
  then show ?thesis ..
qed

lemma issues_nextI:
  assumes "startTransaction w = None"
    and "transactionObjects s = ts @ t # us"
    and "replay w so ts \<lparr>heap = h, trace = [StartTransaction]\<rparr> = (r1, None)"
    and "dispatch w so t r1 = call w c r1"
  shows "issues_next w so ro h s ts t r1 c"
proof (cases "respond w (trace r1) c")
  case (Inl e)
  let ?r0 = "\<lparr>heap = h, trace = [StartTransaction]\<rparr>"
  have "runInTransaction w so False (transactionObjects s) ?r0 = (emit (Call c) r1, Some e)"
    using nonbulk_reaches [OF assms(3), of t us] Inl by (simp add: assms(2,4) call_eq)
  from commit_rolled_back [OF assms(1) this, of ro] Inl show ?thesis
    by (simp add: issues_next_def emit_def)
next
  case (Inr g)
  have "replay w so (ts @ [t]) \<lparr>heap = h, trace = [StartTransaction]\<rparr> = (emit (Call c) r1, None)"
    using Inr by (simp add: replay_append assms(3,4) call_eq)
  moreover from commit_issues [OF assms] obtain evs where
    "trace (final (commit w so ro False h s)) = trace r1 @ Call c # evs" ..
  then have "prefix (trace r1 @ [Call c]) (trace (final (commit w so ro False h s)))"
    by (simp add: prefix_def)
  ultimately show ?thesis using Inr by (simp add: issues_next_def)
qed

text \<open>
  C2. Without bulk upsert \<open>commit\<close> replays its queue in submission order. Let the
  transaction have started, let \<open>t\<close> be a record of the coordinator's queue, \<open>ts\<close> the
  records before it, and let replaying \<open>ts\<close> from the start of the transaction have
  ended without error in \<open>r1\<close>. Then the next thing \<open>commit\<close> does is the call that
  \<open>t\<close> is dispatched to by kind and state, in the store as \<open>ts\<close> left it, right after
  everything \<open>ts\<close> produced; if that call fails \<open>commit\<close> stops, rolls back and raises
  the error, and if it succeeds the same holds again for the record after \<open>t\<close>. The
  dispatch is: a RawQuery record executes its query text with its parameters; a Delete
  record calls \<open>softRemove\<close>, a HardDelete record calls \<open>remove\<close>; an Update record on
  an entity calls \<open>update\<close> keyed by the entity's id with the changed-field map when the
  entity has a snapshot, else, when the record has options, \<open>update\<close> with
  \<open>options.where\<close> (the entity's id when \<open>where\<close> is absent or empty) and
  \<open>options.values\<close>, else \<open>save\<close> on the whole entity.
\<close>

theorem commit_replays_the_queue_in_submission_order:
  assumes "startTransaction w = None"
    and "transactionObjects s = ts @ t # us"
    and "replay w so ts \<lparr>heap = h, trace = [StartTransaction]\<rparr> = (r1, None)"
  shows
   "(type t = RawQuery \<and> object t = RawQueryObject q \<longrightarrow>
       issues_next w so ro h s ts t r1 (DbQuery (JStr (query q)) (JArr (parameters q)))) \<and>
    (type t \<noteq> RawQuery \<and> objectState t = Some Delete \<longrightarrow>
       issues_next w so ro h s ts t r1 (DbSoftRemove (object t) so)) \<and>
    (type t \<noteq> RawQuery \<and> objectState t = Some HardDelete \<longrightarrow>
       issues_next w so ro h s ts t r1 (DbRemove (object t) so)) \<and>
    (type t \<noteq> RawQuery \<and> objectState t = Some Update \<and> object t = Instance a \<and>
     is_instance (heap r1 a) \<and> entity_constructor_name (heap r1 a) = Inr cls \<and>
     truthy (entitySnapshot (heap r1 a)) \<longrightarrow>
       issues_next w so ro h s ts t r1
         (DbUpdate cls (JObj [(''id'', entity_id (heap r1 a))])
                   (getPropertiesToUpdate w (heap r1 a)))) \<and>
    (type t \<noteq> RawQuery \<and> objectState t = Some Update \<and> object t = Instance a \<and>
     is_instance (heap r1 a) \<and> entity_constructor_name (heap r1 a) = Inr cls \<and>
     \<not> truthy (entitySnapshot (heap r1 a)) \<and> options t = Some opts \<longrightarrow>
       issues_next w so ro h s ts t r1
         (DbUpdate cls
                   (case where' opts of
                      None \<Rightarrow> JObj [(''id'', entity_id (heap r1 a))]
                    | Some wh \<Rightarrow>
                        if wh = [] then JObj [(''id'', entity_id (heap r1 a))] else JStr wh)
                   (values' opts))) \<and>
    (type t \<noteq> RawQuery \<and> objectState t = Some Update \<and> object t = Instance a \<and>
     is_instance (heap r1 a) \<and>
     \<not> truthy (entitySnapshot (heap r1 a)) \<and> options t = None \<longrightarrow>
       issues_next w so ro h s ts t r1 (DbSave (Instance a) so))"
proof (intro conjI impI)
  assume "type t = RawQuery \<and> object t = RawQueryObject q"
  then have "dispatch w so t r1 = call w (DbQuery (JStr (query q)) (JArr (parameters q))) r1"
    by (simp add: dispatch_def)
  then show "issues_next w so ro h s ts t r1 (DbQuery (JStr (query q)) (JArr (parameters q)))"
    by (rule issues_nextI [OF assms])
next
  assume "type t \<noteq> RawQuery \<and> objectState t = Some Delete"
  then have "dispatch w so t r1 = call w (DbSoftRemove (object t) so) r1"
    by (auto simp: dispatch_def entity_kind)
  then show "issues_next w so ro h s ts t r1 (DbSoftRemove (object t) so)"
    by (rule issues_nextI [OF assms])
next
  assume "type t \<noteq> RawQuery \<and> objectState t = Some HardDelete"
  then have "dispatch w so t r1 = call w (DbRemove (object t) so) r1"
    by (auto simp: dispatch_def entity_kind)
  then show "issues_next w so ro h s ts t r1 (DbRemove (object t) so)"
    by (rule issues_nextI [OF assms])
next
  assume "type t \<noteq> RawQuery \<and> objectState t = Some Update \<and> object t = Instance a \<and>
     is_instance (heap r1 a) \<and> entity_constructor_name (heap r1 a) = Inr cls \<and>
     truthy (entitySnapshot (heap r1 a))"
  then have "dispatch w so t r1 =
      call w (DbUpdate cls (JObj [(''id'', entity_id (heap r1 a))])
                       (getPropertiesToUpdate w (heap r1 a))) r1"
    by (auto simp: dispatch_def entity_kind)
  then show "issues_next w so ro h s ts t r1
         (DbUpdate cls (JObj [(''id'', entity_id (heap r1 a))])
                   (getPropertiesToUpdate w (heap r1 a)))"
    by (rule issues_nextI [OF assms])
next
  assume "type t \<noteq> RawQuery \<and> objectState t = Some Update \<and> object t = Instance a \<and>
     is_instance (heap r1 a) \<and> entity_constructor_name (heap r1 a) = Inr cls \<and>
     \<not> truthy (entitySnapshot (heap r1 a)) \<and> options t = Some opts"
  then have "dispatch w so t r1 =
      call w (DbUpdate cls
                   (case where' opts of
                      None \<Rightarrow> JObj [(''id'', entity_id (heap r1 a))]
                    | Some wh \<Rightarrow>
                        if wh = [] then JObj [(''id'', entity_id (heap r1 a))] else JStr wh)
                   (values' opts)) r1"
    by (auto simp: dispatch_def entity_kind criteria_def split: option.split)
  then show "issues_next w so ro h s ts t r1
         (DbUpdate cls
                   (case where' opts of
                      None \<Rightarrow> JObj [(''id'', entity_id (heap r1 a))]
                    | Some wh \<Rightarrow>
                        if wh = [] then JObj [(''id'', entity_id (heap r1 a))] else JStr wh)
                   (values' opts))"
    by (rule issues_nextI [OF assms])
next
  assume "type t \<noteq> RawQuery \<and> objectState t = Some Update \<and> object t = Instance a \<and>
     is_instance (heap r1 a) \<and>
     \<not> truthy (entitySnapshot (heap r1 a)) \<and> options t = None"
  then have "dispatch w so t r1 = call w (DbSave (Instance a) so) r1"
    by (auto simp: dispatch_def entity_kind)
  then show "issues_next w so ro h s ts t r1 (DbSave (Instance a) so)"
    by (rule issues_nextI [OF assms])
qed

theorem commit_replays_the_queue_in_submission_order_witness:
  "prefix
     [StartTransaction,
      Call (DbQuery (JStr ''SELECT 1'') (JArr [JNum 1]))]
     (trace (final (commit reliable_world None None False snapshot_store mixed_scope))) \<and>
   prefix
     [StartTransaction,
      Call (DbQuery (JStr ''SELECT 1'') (JArr [JNum 1])),
      Call (DbSoftRemove (Instance 0) None)]
     (trace (final (commit reliable_world None None False snapshot_store mixed_scope))) \<and>
   prefix
     [StartTransaction,
      Call (DbQuery (JStr ''SELECT 1'') (JArr [JNum 1])),
      Call (DbSoftRemove (Instance 0) None),
      Call (DbRemove (Collection [0, 2]) None)]
     (trace (final (commit reliable_world None None False snapshot_store mixed_scope))) \<and>
   prefix
     [StartTransaction,
      Call (DbQuery (JStr ''SELECT 1'') (JArr [JNum 1])),
      Call (DbSoftRemove (Instance 0) None),
      Call (DbRemove (Collection [0, 2]) None),
      Call (DbUpdate (JStr ''User'') (JObj [(''id'', JNum 1)]) [(''name'', JStr ''new'')])]
     (trace (final (commit reliable_world None None False snapshot_store mixed_scope))) \<and>
   prefix
     [StartTransaction,
      Call (DbQuery (JStr ''SELECT 1'') (JArr [JNum 1])),
      Call (DbSoftRemove (Instance 0) None),
      Call (DbRemove (Collection [0, 2]) None),
      Call (DbUpdate (JStr ''User'') (JObj [(''id'', JNum 1)]) [(''name'', JStr ''new'')]),
      Call (DbUpdate (JStr ''User'') (JObj [(''id'', JNum 0)]) [(''stamp'', JFun ''stamp'')])]
     (trace (final (commit reliable_world None None False snapshot_store mixed_scope))) \<and>
   prefix
     [StartTransaction,
      Call (DbQuery (JStr ''SELECT 1'') (JArr [JNum 1])),
      Call (DbSoftRemove (Instance 0) None),
      Call (DbRemove (Collection [0, 2]) None),
      Call (DbUpdate (JStr ''User'') (JObj [(''id'', JNum 1)]) [(''name'', JStr ''new'')]),
      Call (DbUpdate (JStr ''User'') (JObj [(''id'', JNum 0)]) [(''stamp'', JFun ''stamp'')]),
      Call (DbSave (Instance 0) None)]
     (trace (final (commit reliable_world None None False snapshot_store mixed_scope))) \<and>
   raised (commit failing_world None None False snapshot_store mixed_scope) = Some (Thrown ''connection lost'') \<and>
   trace (final (commit failing_world None None False snapshot_store mixed_scope)) =
     [StartTransaction, Call (DbQuery (JStr ''SELECT 1'') (JArr [JNum 1])), RollbackTransaction]"
proof -
  have s: "startTransaction reliable_world = None" by (simp add: reliable_world_def)
  have sf: "startTransaction failing_world = None"
    by (simp add: failing_world_def reliable_world_def)
  have q1: "transactionObjects mixed_scope =
      [] @
      \<lparr>type = RawQuery,
          object = RawQueryObject \<lparr>query = ''SELECT 1'', parameters = [JNum 1]\<rparr>,
          objectState = None, options = None\<rparr> #
      [\<lparr>type = EntityCollection, object = Instance 0, objectState = Some Delete,
          options = None\<rparr>,
         \<lparr>type = BulkEntityCollnection, object = Collection [0, 2],
          objectState = Some HardDelete, options = None\<rparr>,
         \<lparr>type = EntityCollection, object = Instance 1, objectState = Some Update,
          options = None\<rparr>,
         \<lparr>type = EntityCollection, object = Instance 0, objectState = Some Update,
          options = Some \<lparr>where' = None, values' = [(''stamp'', JFun ''stamp'')]\<rparr>\<rparr>,
         \<lparr>type = EntityCollection, object = Instance 0, objectState = Some Update,
          options = None\<rparr>]"
    by (simp add: mixed_scope_def)
  have r1: "replay reliable_world None
      []
      \<lparr>heap = snapshot_store, trace = [StartTransaction]\<rparr> =
      (\<lparr>heap = snapshot_store,
        trace = [StartTransaction]\<rparr>, None)"
    by (simp add: dispatch_def call_def perform_def emit_def reliable_world_def snapshot_store_def
        example_store_def is_instance_def entitySnapshot_def entity_id_def get_prop_def
        entity_constructor_name_def criteria_def)
  note t1 = commit_replays_the_queue_in_submission_order [OF s q1 r1]
  have w1: "prefix
     [StartTransaction,
      Call (DbQuery (JStr ''SELECT 1'') (JArr [JNum 1]))]
     (trace (final (commit reliable_world None None False snapshot_store mixed_scope)))"
    using t1 [where ro = None and q = "\<lparr>query = ''SELECT 1'', parameters = [JNum 1]\<rparr>"]
    by (simp add: issues_next_def dispatch_def call_def perform_def emit_def reliable_world_def snapshot_store_def
        example_store_def is_instance_def entitySnapshot_def entity_id_def get_prop_def
        entity_constructor_name_def criteria_def)
  have q2: "transactionObjects mixed_scope =
      [\<lparr>type = RawQuery,
          object = RawQueryObject \<lparr>query = ''SELECT 1'', parameters = [JNum 1]\<rparr>,
          objectState = None, options = None\<rparr>] @
      \<lparr>type = EntityCollection, object = Instance 0, objectState = Some Delete,
          options = None\<rparr> #
      [\<lparr>type = BulkEntityCollnection, object = Collection [0, 2],
          objectState = Some HardDelete, options = None\<rparr>,
         \<lparr>type = EntityCollection, object = Instance 1, objectState = Some Update,
          options = None\<rparr>,
         \<lparr>type = EntityCollection, object = Instance 0, objectState = Some Update,
          options = Some \<lparr>where' = None, values' = [(''stamp'', JFun ''stamp'')]\<rparr>\<rparr>,
         \<lparr>type = EntityCollection, object = Instance 0, objectState = Some Update,
          options = None\<rparr>]"
    by (simp add: mixed_scope_def)
  have r2: "replay reliable_world None
      [\<lparr>type = RawQuery,
          object = RawQueryObject \<lparr>query = ''SELECT 1'', parameters = [JNum 1]\<rparr>,
          objectState = None, options = None\<rparr>]
      \<lparr>heap = snapshot_store, trace = [StartTransaction]\<rparr> =
      (\<lparr>heap = snapshot_store,
        trace = [StartTransaction,
          Call (DbQuery (JStr ''SELECT 1'') (JArr [JNum 1]))]\<rparr>, None)"
    by (simp add: dispatch_def call_def perform_def emit_def reliable_world_def snapshot_store_def
        example_store_def is_instance_def entitySnapshot_def entity_id_def get_prop_def
        entity_constructor_name_def criteria_def)
  note t2 = commit_replays_the_queue_in_submission_order [OF s q2 r2]
  have w2: "prefix
     [StartTransaction,
      Call (DbQuery (JStr ''SELECT 1'') (JArr [JNum 1])),
      Call (DbSoftRemove (Instance 0) None)]
     (trace (final (commit reliable_world None None False snapshot_store mixed_scope)))"
    using t2 [where ro = None]
    by (simp add: issues_next_def dispatch_def call_def perform_def emit_def reliable_world_def snapshot_store_def
        example_store_def is_instance_def entitySnapshot_def entity_id_def get_prop_def
        entity_constructor_name_def criteria_def)
  have q3: "transactionObjects mixed_scope =
      [\<lparr>type = RawQuery,
          object = RawQueryObject \<lparr>query = ''SELECT 1'', parameters = [JNum 1]\<rparr>,
          objectState = None, options = None\<rparr>,
         \<lparr>type = EntityCollection, object = Instance 0, objectState = Some Delete,
          options = None\<rparr>] @
      \<lparr>type = BulkEntityCollnection, object = Collection [0, 2],
          objectState = Some HardDelete, options = None\<rparr> #
      [\<lparr>type = EntityCollection, object = Instance 1, objectState = Some Update,
          options = None\<rparr>,
         \<lparr>type = EntityCollection, object = Instance 0, objectState = Some Update,
          options = Some \<lparr>where' = None, values' = [(''stamp'', JFun ''stamp'')]\<rparr>\<rparr>,
         \<lparr>type = EntityCollection, object = Instance 0, objectState = Some Update,
          options = None\<rparr>]"
    by (simp add: mixed_scope_def)
  have r3: "replay reliable_world None
      [\<lparr>type = RawQuery,
          object = RawQueryObject \<lparr>query = ''SELECT 1'', parameters = [JNum 1]\<rparr>,
          objectState = None, options = None\<rparr>,
         \<lparr>type = EntityCollection, object = Instance 0, objectState = Some Delete,
          options = None\<rparr>]
      \<lparr>heap = snapshot_store, trace = [StartTransaction]\<rparr> =
      (\<lparr>heap = snapshot_store,
        trace = [StartTransaction,
          Call (DbQuery (JStr ''SELECT 1'') (JArr [JNum 1])),
          Call (DbSoftRemove (Instance 0) None)]\<rparr>, None)"
    by (simp add: dispatch_def call_def perform_def emit_def reliable_world_def snapshot_store_def
        example_store_def is_instance_def entitySnapshot_def entity_id_def get_prop_def
        entity_constructor_name_def criteria_def)
  note t3 = commit_replays_the_queue_in_submission_order [OF s q3 r3]
  have w3: "prefix
     [StartTransaction,
      Call (DbQuery (JStr ''SELECT 1'') (JArr [JNum 1])),
      Call (DbSoftRemove (Instance 0) None),
      Call (DbRemove (Collection [0, 2]) None)]
     (trace (final (commit reliable_world None None False snapshot_store mixed_scope)))"
    using t3 [where ro = None]
    by (simp add: issues_next_def dispatch_def call_def perform_def emit_def reliable_world_def snapshot_store_def
        example_store_def is_instance_def entitySnapshot_def entity_id_def get_prop_def
        entity_constructor_name_def criteria_def)
  have q4: "transactionObjects mixed_scope =
      [\<lparr>type = RawQuery,
          object = RawQueryObject \<lparr>query = ''SELECT 1'', parameters = [JNum 1]\<rparr>,
          objectState = None, options = None\<rparr>,
         \<lparr>type = EntityCollection, object = Instance 0, objectState = Some Delete,
          options = None\<rparr>,
         \<lparr>type = BulkEntityCollnection, object = Collection [0, 2],
          objectState = Some HardDelete, options = None\<rparr>] @
      \<lparr>type = EntityCollection, object = Instance 1, objectState = Some Update,
          options = None\<rparr> #
      [\<lparr>type = EntityCollection, object = Instance 0, objectState = Some Update,
          options = Some \<lparr>where' = None, values' = [(''stamp'', JFun ''stamp'')]\<rparr>\<rparr>,
         \<lparr>type = EntityCollection, object = Instance 0, objectState = Some Update,
          options = None\<rparr>]"
    by (simp add: mixed_scope_def)
  have r4: "replay reliable_world None
      [\<lparr>type = RawQuery,
          object = RawQueryObject \<lparr>query = ''SELECT 1'', parameters = [JNum 1]\<rparr>,
          objectState = None, options = None\<rparr>,
         \<lparr>type = EntityCollection, object = Instance 0, objectState = Some Delete,
          options = None\<rparr>,
         \<lparr>type = BulkEntityCollnection, object = Collection [0, 2],
          objectState = Some HardDelete, options = None\<rparr>]
      \<lparr>heap = snapshot_store, trace = [StartTransaction]\<rparr> =
      (\<lparr>heap = snapshot_store,
        trace = [StartTransaction,
          Call (DbQuery (JStr ''SELECT 1'') (JArr [JNum 1])),
          Call (DbSoftRemove (Instance 0) None),
          Call (DbRemove (Collection [0, 2]) None)]\<rparr>, None)"
    by (simp add: dispatch_def call_def perform_def emit_def reliable_world_def snapshot_store_def
        example_store_def is_instance_def entitySnapshot_def entity_id_def get_prop_def
        entity_constructor_name_def criteria_def)
  note t4 = commit_replays_the_queue_in_submission_order [OF s q4 r4]
  have w4: "prefix
     [StartTransaction,
      Call (DbQuery (JStr ''SELECT 1'') (JArr [JNum 1])),
      Call (DbSoftRemove (Instance 0) None),
      Call (DbRemove (Collection [0, 2]) None),
      Call (DbUpdate (JStr ''User'') (JObj [(''id'', JNum 1)]) [(''name'', JStr ''new'')])]
     (trace (final (commit reliable_world None None False snapshot_store mixed_scope)))"
    using t4 [where ro = None and a = 1 and cls = "JStr ''User''"]
    by (simp add: issues_next_def dispatch_def call_def perform_def emit_def reliable_world_def snapshot_store_def
        example_store_def is_instance_def entitySnapshot_def entity_id_def get_prop_def
        entity_constructor_name_def criteria_def)
  have q5: "transactionObjects mixed_scope =
      [\<lparr>type = RawQuery,
          object = RawQueryObject \<lparr>query = ''SELECT 1'', parameters = [JNum 1]\<rparr>,
          objectState = None, options = None\<rparr>,
         \<lparr>type = EntityCollection, object = Instance 0, objectState = Some Delete,
          options = None\<rparr>,
         \<lparr>type = BulkEntityCollnection, object = Collection [0, 2],
          objectState = Some HardDelete, options = None\<rparr>,
         \<lparr>type = EntityCollection, object = Instance 1, objectState = Some Update,
          options = None\<rparr>] @
      \<lparr>type = EntityCollection, object = Instance 0, objectState = Some Update,
          options = Some \<lparr>where' = None, values' = [(''stamp'', JFun ''stamp'')]\<rparr>\<rparr> #
      [\<lparr>type = EntityCollection, object = Instance 0, objectState = Some Update,
          options = None\<rparr>]"
    by (simp add: mixed_scope_def)
  have r5: "replay reliable_world None
      [\<lparr>type = RawQuery,
          object = RawQueryObject \<lparr>query = ''SELECT 1'', parameters = [JNum 1]\<rparr>,
          objectState = None, options = None\<rparr>,
         \<lparr>type = EntityCollection, object = Instance 0, objectState = Some Delete,
          options = None\<rparr>,
         \<lparr>type = BulkEntityCollnection, object = Collection [0, 2],
          objectState = Some HardDelete, options = None\<rparr>,
         \<lparr>type = EntityCollection, object = Instance 1, objectState = Some Update,
          options = None\<rparr>]
      \<lparr>heap = snapshot_store, trace = [StartTransaction]\<rparr> =
      (\<lparr>heap = snapshot_store,
        trace = [StartTransaction,
          Call (DbQuery (JStr ''SELECT 1'') (JArr [JNum 1])),
          Call (DbSoftRemove (Instance 0) None),
          Call (DbRemove (Collection [0, 2]) None),
          Call (DbUpdate (JStr ''User'') (JObj [(''id'', JNum 1)]) [(''name'', JStr ''new'')])]\<rparr>, None)"
    by (simp add: dispatch_def call_def perform_def emit_def reliable_world_def snapshot_store_def
        example_store_def is_instance_def entitySnapshot_def entity_id_def get_prop_def
        entity_constructor_name_def criteria_def)
  note t5 = commit_replays_the_queue_in_submission_order [OF s q5 r5]
  have w5: "prefix
     [StartTransaction,
      Call (DbQuery (JStr ''SELECT 1'') (JArr [JNum 1])),
      Call (DbSoftRemove (Instance 0) None),
      Call (DbRemove (Collection [0, 2]) None),
      Call (DbUpdate (JStr ''User'') (JObj [(''id'', JNum 1)]) [(''name'', JStr ''new'')]),
      Call (DbUpdate (JStr ''User'') (JObj [(''id'', JNum 0)]) [(''stamp'', JFun ''stamp'')])]
     (trace (final (commit reliable_world None None False snapshot_store mixed_scope)))"
    using t5 [where ro = None and a = 0 and cls = "JStr ''User''" and opts = "\<lparr>where' = None, values' = [(''stamp'', JFun ''stamp'')]\<rparr>"]
    by (simp add: issues_next_def dispatch_def call_def perform_def emit_def reliable_world_def snapshot_store_def
        example_store_def is_instance_def entitySnapshot_def entity_id_def get_prop_def
        entity_constructor_name_def criteria_def)
  have q6: "transactionObjects mixed_scope =
      [\<lparr>type = RawQuery,
          object = RawQueryObject \<lparr>query = ''SELECT 1'', parameters = [JNum 1]\<rparr>,
          objectState = None, options = None\<rparr>,
         \<lparr>type = EntityCollection, object = Instance 0, objectState = Some Delete,
          options = None\<rparr>,
         \<lparr>type = BulkEntityCollnection, object = Collection [0, 2],
          objectState = Some HardDelete, options = None\<rparr>,
         \<lparr>type = EntityCollection, object = Instance 1, objectState = Some Update,
          options = None\<rparr>,
         \<lparr>type = EntityCollection, object = Instance 0, objectState = Some Update,
          options = Some \<lparr>where' = None, values' = [(''stamp'', JFun ''stamp'')]\<rparr>\<rparr>] @
      \<lparr>type = EntityCollection, object = Instance 0, objectState = Some Update,
          options = None\<rparr> #
      []"
    by (simp add: mixed_scope_def)
  have r6: "replay reliable_world None
      [\<lparr>type = RawQuery,
          object = RawQueryObject \<lparr>query = ''SELECT 1'', parameters = [JNum 1]\<rparr>,
          objectState = None, options = None\<rparr>,
         \<lparr>type = EntityCollection, object = Instance 0, objectState = Some Delete,
          options = None\<rparr>,
         \<lparr>type = BulkEntityCollnection, object = Collection [0, 2],
          objectState = Some HardDelete, options = None\<rparr>,
         \<lparr>type = EntityCollection, object = Instance 1, objectState = Some Update,
          options = None\<rparr>,
         \<lparr>type = EntityCollection, object = Instance 0, objectState = Some Update,
          options = Some \<lparr>where' = None, values' = [(''stamp'', JFun ''stamp'')]\<rparr>\<rparr>]
      \<lparr>heap = snapshot_store, trace = [StartTransaction]\<rparr> =
      (\<lparr>heap = snapshot_store,
        trace = [StartTransaction,
          Call (DbQuery (JStr ''SELECT 1'') (JArr [JNum 1])),
          Call (DbSoftRemove (Instance 0) None),
          Call (DbRemove (Collection [0, 2]) None),
          Call (DbUpdate (JStr ''User'') (JObj [(''id'', JNum 1)]) [(''name'', JStr ''new'')]),
          Call (DbUpdate (JStr ''User'') (JObj [(''id'', JNum 0)]) [(''stamp'', JFun ''stamp'')])]\<rparr>, None)"
    by (simp add: dispatch_def call_def perform_def emit_def reliable_world_def snapshot_store_def
        example_store_def is_instance_def entitySnapshot_def entity_id_def get_prop_def
        entity_constructor_name_def criteria_def)
  note t6 = commit_replays_the_queue_in_submission_order [OF s q6 r6]
  have w6: "prefix
     [StartTransaction,
      Call (DbQuery (JStr ''SELECT 1'') (JArr [JNum 1])),
      Call (DbSoftRemove (Instance 0) None),
      Call (DbRemove (Collection [0, 2]) None),
      Call (DbUpdate (JStr ''User'') (JObj [(''id'', JNum 1)]) [(''name'', JStr ''new'')]),
      Call (DbUpdate (JStr ''User'') (JObj [(''id'', JNum 0)]) [(''stamp'', JFun ''stamp'')]),
      Call (DbSave (Instance 0) None)]
     (trace (final (commit reliable_world None None False snapshot_store mixed_scope)))"
    using t6 [where ro = None and a = 0]
    by (simp add: issues_next_def dispatch_def call_def perform_def emit_def reliable_world_def snapshot_store_def
        example_store_def is_instance_def entitySnapshot_def entity_id_def get_prop_def
        entity_constructor_name_def criteria_def)
  have rf: "replay failing_world None [] \<lparr>heap = snapshot_store, trace = [StartTransaction]\<rparr> =
      (\<lparr>heap = snapshot_store, trace = [StartTransaction]\<rparr>, None)"
    by simp
  note tf = commit_replays_the_queue_in_submission_order [OF sf q1 rf]
  have wf: "raised (commit failing_world None None False snapshot_store mixed_scope) = Some (Thrown ''connection lost'') \<and>
   trace (final (commit failing_world None None False snapshot_store mixed_scope)) =
     [StartTransaction, Call (DbQuery (JStr ''SELECT 1'') (JArr [JNum 1])), RollbackTransaction]"
    using tf [where ro = None and q = "\<lparr>query = ''SELECT 1'', parameters = [JNum 1]\<rparr>"]
    by (simp add: issues_next_def failing_world_def reliable_world_def)
  from w1 w2 w3 w4 w5 w6 wf show ?thesis by (intro conjI) simp_all
qed

text \<open>
  C10. The \<open>removeOptions\<close> argument of \<open>commit\<close> is never used: the whole outcome of
  \<open>commit\<close> is the same for any two values of it. Without bulk upsert, an entity-kind
  record in state Delete that is reached during replay issues \<open>softRemove\<close> with the
  \<open>saveOptions\<close> argument, and one in state HardDelete issues \<open>remove\<close> with the
  \<open>saveOptions\<close> argument.
\<close>

theorem removeOptions_is_never_used:
  "commit w so ro b h s = commit w so ro' b h s \<and>
   (startTransaction w1 = None \<and> transactionObjects s1 = ts1 @ t1 # us1 \<and>
    replay w1 so1 ts1 \<lparr>heap = h1, trace = [StartTransaction]\<rparr> = (r1, None) \<and>
    type t1 \<noteq> RawQuery \<and> objectState t1 = Some Delete \<longrightarrow>
      (\<exists>evs. trace (final (commit w1 so1 ro1 False h1 s1)) =
               trace r1 @ Call (DbSoftRemove (object t1) so1) # evs)) \<and>
   (startTransaction w2 = None \<and> transactionObjects s2 = ts2 @ t2 # us2 \<and>
    replay w2 so2 ts2 \<lparr>heap = h2, trace = [StartTransaction]\<rparr> = (r2, None) \<and>
    type t2 \<noteq> RawQuery \<and> objectState t2 = Some HardDelete \<longrightarrow>
      (\<exists>evs. trace (final (commit w2 so2 ro2 False h2 s2)) =
               trace r2 @ Call (DbRemove (object t2) so2) # evs))"
proof (intro conjI impI)
  show "commit w so ro b h s = commit w so ro' b h s"
    by (simp add: commit_def)
next
  assume a: "startTransaction w1 = None \<and> transactionObjects s1 = ts1 @ t1 # us1 \<and>
    replay w1 so1 ts1 \<lparr>heap = h1, trace = [StartTransaction]\<rparr> = (r1, None) \<and>
    type t1 \<noteq> RawQuery \<and> objectState t1 = Some Delete"
  then have "dispatch w1 so1 t1 r1 = call w1 (DbSoftRemove (object t1) so1) r1"
    by (auto simp: dispatch_def entity_kind)
  with a show "\<exists>evs. trace (final (commit w1 so1 ro1 False h1 s1)) =
               trace r1 @ Call (DbSoftRemove (object t1) so1) # evs"
    using commit_issues [of w1 s1 ts1 t1 us1 so1 h1 r1 "DbSoftRemove (object t1) so1" ro1]
    by blast
next
  assume a: "startTransaction w2 = None \<and> transactionObjects s2 = ts2 @ t2 # us2 \<and>
    replay w2 so2 ts2 \<lparr>heap = h2, trace = [StartTransaction]\<rparr> = (r2, None) \<and>
    type t2 \<noteq> RawQuery \<and> objectState t2 = Some HardDelete"
  then have "dispatch w2 so2 t2 r2 = call w2 (DbRemove (object t2) so2) r2"
    by (auto simp: dispatch_def entity_kind)
  with a show "\<exists>evs. trace (final (commit w2 so2 ro2 False h2 s2)) =
               trace r2 @ Call (DbRemove (object t2) so2) # evs"
    using commit_issues [of w2 s2 ts2 t2 us2 so2 h2 r2 "DbRemove (object t2) so2" ro2]
    by blast
qed

theorem removeOptions_is_never_used_witness:
  "commit reliable_world (Some (SaveOptions [(''reload'', JBool False)]))
     (Some (RemoveOptions [(''chunk'', JNum 100)])) False example_store deleting_scope =
   commit reliable_world (Some (SaveOptions [(''reload'', JBool False)]))
     None False example_store deleting_scope \<and>
   (\<exists>evs. trace (final (commit reliable_world (Some (SaveOptions [(''reload'', JBool False)]))
                       (Some (RemoveOptions [(''chunk'', JNum 100)])) False example_store
                       deleting_scope)) =
      [StartTransaction,
       Call (DbSave (Instance 0) (Some (SaveOptions [(''reload'', JBool False)]))),
       Call (DbSoftRemove (Instance 1) (Some (SaveOptions [(''reload'', JBool False)])))]
      @ evs) \<and>
   (\<exists>evs. trace (final (commit reliable_world (Some (SaveOptions [(''reload'', JBool False)]))
                       (Some (RemoveOptions [(''chunk'', JNum 100)])) False example_store
                       deleting_scope)) =
      [StartTransaction,
       Call (DbSave (Instance 0) (Some (SaveOptions [(''reload'', JBool False)]))),
       Call (DbSoftRemove (Instance 1) (Some (SaveOptions [(''reload'', JBool False)]))),
       Call (DbRemove (Collection [2, 3]) (Some (SaveOptions [(''reload'', JBool False)])))]
      @ evs)"
proof -
  note T = removeOptions_is_never_used
    [where w = reliable_world and so = "Some (SaveOptions [(''reload'', JBool False)])"
       and ro = "Some (RemoveOptions [(''chunk'', JNum 100)])" and ro' = None and b = False
       and h = example_store and s = deleting_scope
       and ?w1.0 = reliable_world and ?so1.0 = "Some (SaveOptions [(''reload'', JBool False)])"
       and ?ro1.0 = "Some (RemoveOptions [(''chunk'', JNum 100)])"
       and ?h1.0 = example_store and ?s1.0 = deleting_scope
       and ?ts1.0 = "[\<lparr>type = EntityCollection, object = Instance 0,
                       objectState = Some Insert, options = None\<rparr>]"
       and ?t1.0 = "\<lparr>type = EntityCollection, object = Instance 1,
                      objectState = Some Delete, options = None\<rparr>"
       and ?us1.0 = "[\<lparr>type = BulkEntityCollnection, object = Collection [2, 3],
                       objectState = Some HardDelete, options = None\<rparr>]"
       and ?r1.0 = "\<lparr>heap = example_store,
                      trace = [StartTransaction,
                               Call (DbSave (Instance 0)
                                       (Some (SaveOptions [(''reload'', JBool False)])))]\<rparr>"
       and ?w2.0 = reliable_world and ?so2.0 = "Some (SaveOptions [(''reload'', JBool False)])"
       and ?ro2.0 = "Some (RemoveOptions [(''chunk'', JNum 100)])"
       and ?h2.0 = example_store and ?s2.0 = deleting_scope
       and ?ts2.0 = "[\<lparr>type = EntityCollection, object = Instance 0,
                       objectState = Some Insert, options = None\<rparr>,
                      \<lparr>type = EntityCollection, object = Instance 1,
                       objectState = Some Delete, options = None\<rparr>]"
       and ?t2.0 = "\<lparr>type = BulkEntityCollnection, object = Collection [2, 3],
                      objectState = Some HardDelete, options = None\<rparr>"
       and ?us2.0 = "[]"
       and ?r2.0 = "\<lparr>heap = example_store,
                      trace = [StartTransaction,
                               Call (DbSave (Instance 0)
                                       (Some (SaveOptions [(''reload'', JBool False)]))),
                               Call (DbSoftRemove (Instance 1)
                                       (Some (SaveOptions [(''reload'', JBool False)])))]\<rparr>"]
  from T have A: "commit reliable_world (Some (SaveOptions [(''reload'', JBool False)]))
     (Some (RemoveOptions [(''chunk'', JNum 100)])) False example_store deleting_scope =
   commit reliable_world (Some (SaveOptions [(''reload'', JBool False)]))
     None False example_store deleting_scope"
    by (rule conjunct1)
  have B: "\<exists>evs. trace (final (commit reliable_world (Some (SaveOptions [(''reload'', JBool False)]))
                       (Some (RemoveOptions [(''chunk'', JNum 100)])) False example_store
                       deleting_scope)) =
      [StartTransaction,
       Call (DbSave (Instance 0) (Some (SaveOptions [(''reload'', JBool False)]))),
       Call (DbSoftRemove (Instance 1) (Some (SaveOptions [(''reload'', JBool False)])))]
      @ evs"
    using T [THEN conjunct2, THEN conjunct1]
    by (simp add: deleting_scope_def hardDeleteCollection_def delete_def add_def push_def
        empty_scope_def dispatch_def call_def perform_def emit_def reliable_world_def)
  have C: "\<exists>evs. trace (final (commit reliable_world (Some (SaveOptions [(''reload'', JBool False)]))
                       (Some (RemoveOptions [(''chunk'', JNum 100)])) False example_store
                       deleting_scope)) =
      [StartTransaction,
       Call (DbSave (Instance 0) (Some (SaveOptions [(''reload'', JBool False)]))),
       Call (DbSoftRemove (Instance 1) (Some (SaveOptions [(''reload'', JBool False)]))),
       Call (DbRemove (Collection [2, 3]) (Some (SaveOptions [(''reload'', JBool False)])))]
      @ evs"
    using T [THEN conjunct2, THEN conjunct2]
    by (simp add: deleting_scope_def hardDeleteCollection_def delete_def add_def push_def
        empty_scope_def dispatch_def call_def perform_def emit_def reliable_world_def)
  from A B C show ?thesis by (intro conjI)
qed

subsection \<open>Staging with custom values\<close>





text \<open>
  Three assignments that do not create the property one might expect. A number under
  \<open>__proto__\<close> is ignored by the prototype setter. A plain object under \<open>__proto__\<close>
  becomes the prototype, so the entity is no longer an instance of \<open>EntityBase\<close> and the
  replay of its Update record logs and throws. A string under \<open>constructor\<close> becomes an
  own property that shadows the class, and \<^verbatim>\<open>entity.constructor.name\<close> is then
  \<open>undefined\<close>.
\<close>

lemma assignments_under_special_keys:
  "fst (updateWithCustomValues 0 \<lparr>where' = None, values' = [(''__proto__'', JNum 5)]\<rparr>
          (example_store, empty_scope)) 0 = example_store 0 \<and>
   prototype (fst (updateWithCustomValues 0
                     \<lparr>where' = None, values' = [(''__proto__'', JObj [])]\<rparr>
                     (example_store, empty_scope)) 0) = ObjectPrototype [] \<and>
   dispatch reliable_world None
     \<lparr>type = EntityCollection, object = Instance 0, objectState = Some Update,
      options = Some \<lparr>where' = None, values' = [(''__proto__'', JObj [])]\<rparr>\<rparr>
     \<lparr>heap = fst (updateWithCustomValues 0
                      \<lparr>where' = None, values' = [(''__proto__'', JObj [])]\<rparr>
                      (example_store, empty_scope)),
      trace = []\<rparr> =
     (\<lparr>heap = fst (updateWithCustomValues 0
                       \<lparr>where' = None, values' = [(''__proto__'', JObj [])]\<rparr>
                       (example_store, empty_scope)),
       trace = [ConsoleError ''ENTITY NOT AN INSTANCE OF ENTITY BASE'']\<rparr>,
      Some (Error ''Entity is not an instance of entity base'')) \<and>
   entity_constructor_name
     (fst (updateWithCustomValues 0
             \<lparr>where' = None, values' = [(''constructor'', JStr ''x'')]\<rparr>
             (example_store, empty_scope)) 0) = Inr JUndefined"
  by (simp add: updateWithCustomValues_def set_prop_def dispatch_def is_instance_def
      emit_def entity_constructor_name_def example_store_def)




text \<open>
  C7, as the code has it. When \<open>options.where\<close> is a non-empty string,
  \<open>insertWithCustomValues\<close> throws the \<open>BadRequestException\<close> and leaves the store and
  the coordinator exactly as they were: no entity is mutated and nothing is queued.
\<close>

theorem insert_with_nonempty_criteria_is_rejected:
  "where' opts = Some w \<and> w \<noteq> [] \<longrightarrow>
     insertWithCustomValues obj opts (h, s) =
       ((h, s), Some (BadRequestException ''can't pass criteria when inserting values''))"
  by (simp add: insertWithCustomValues_def where_truthy_def)

theorem insert_with_nonempty_criteria_is_rejected_witness:
  "insertWithCustomValues 0 \<lparr>where' = Some ''x'', values' = [(''name'', JStr ''a'')]\<rparr>
     (example_store, add 1 empty_scope) =
   ((example_store, add 1 empty_scope),
    Some (BadRequestException ''can't pass criteria when inserting values''))"
  using insert_with_nonempty_criteria_is_rejected
    [of "\<lparr>where' = Some ''x'', values' = [(''name'', JStr ''a'')]\<rparr>" "''x''" 0
        example_store "add 1 empty_scope"]
  by simp

text \<open>
  C7 as stated fails: the guard is \<^verbatim>\<open>if (options.where)\<close>, and the empty string is
  falsy. With \<open>where\<close> set to the empty string nothing is thrown, the entity is mutated
  and the record is queued.
\<close>

theorem insert_with_empty_criteria_is_accepted:
  "where' empty_where_options = Some [] \<and>
   insertWithCustomValues 0 empty_where_options (example_store, empty_scope) =
   ((example_store
       (0 := \<lparr>className = ''User'', props = [''id'' \<mapsto> JNum 0, ''name'' \<mapsto> JStr ''a''],
               prototype = ClassPrototype\<rparr>),
     \<lparr>transactionObjects =
        [\<lparr>type = EntityCollection, object = Instance 0, objectState = Some Insert,
          options = Some empty_where_options\<rparr>],
      hooks = []\<rparr>), None)"
  by (simp add: insertWithCustomValues_def where_truthy_def set_prop_def push_def
      empty_scope_def example_store_def empty_where_options_def)

subsection \<open>Collections and bulk upsert\<close>

lemma any_snapshot_iff:
  "any_snapshot h collection = (\<exists>a \<in> set collection. truthy (entitySnapshot (h a)))"
  by (induction collection) simp_all

lemma foldl_update:
  "foldl (\<lambda>s' obj. update obj s') s collection =
     s\<lparr>transactionObjects := transactionObjects s @
          map (\<lambda>obj. \<lparr>type = EntityCollection, object = Instance obj,
                        objectState = Some Update, options = None\<rparr>) collection\<rparr>"
  by (induction collection arbitrary: s) (simp_all add: update_def push_def)

text \<open>What \<open>updateCollection\<close> stages, in general: one \<open>EntityCollection\<close> record in
  state Update per element when some element has a truthy snapshot, and otherwise one
  record in state Update that holds the whole array and is tagged \<open>EntityCollection\<close> as
  well.\<close>

lemma updateCollection_stages:
  "updateCollection h collection s =
     (if \<exists>a \<in> set collection. truthy (entitySnapshot (h a))
      then s\<lparr>transactionObjects := transactionObjects s @
                map (\<lambda>obj. \<lparr>type = EntityCollection, object = Instance obj,
                              objectState = Some Update, options = None\<rparr>) collection\<rparr>
      else s\<lparr>transactionObjects := transactionObjects s @
                [\<lparr>type = EntityCollection, object = Collection collection,
                  objectState = Some Update, options = None\<rparr>]\<rparr>)"
  by (simp add: updateCollection_def any_snapshot_iff foldl_update push_def)

text \<open>
  C5. The specification says that a collection without snapshots is staged as one EntityBatch
  record. Evaluated on two entities without snapshot, \<open>updateCollection\<close> stages one
  record holding the array, tagged \<open>EntityCollection\<close>, the tag of a single entity;
  \<open>addCollection\<close> on the same array tags its record \<open>BulkEntityCollnection\<close>. The tag
  decides what a bulk commit saves: the queue record itself for the first, the two
  entities for the second.
\<close>

theorem updateCollection_without_snapshot_stages_an_EntityCollection_record:
  "updateCollection example_store [0, 2] empty_scope =
     \<lparr>transactionObjects =
        [\<lparr>type = EntityCollection, object = Collection [0, 2], objectState = Some Update,
          options = None\<rparr>],
      hooks = []\<rparr> \<and>
   addCollection [0, 2] empty_scope =
     \<lparr>transactionObjects =
        [\<lparr>type = BulkEntityCollnection, object = Collection [0, 2],
          objectState = Some Insert, options = None\<rparr>],
      hooks = []\<rparr> \<and>
   calls (trace (final (commit reliable_world None None True example_store
                          (updateCollection example_store [0, 2] empty_scope)))) =
     [DbSaveAll [Wrapper \<lparr>type = EntityCollection, object = Collection [0, 2],
                          objectState = Some Update, options = None\<rparr>] None] \<and>
   calls (trace (final (commit reliable_world None None True example_store
                          (addCollection [0, 2] empty_scope)))) =
     [DbSaveAll [Entity 0, Entity 2] None]"
  by (simp add: updateCollection_def addCollection_def push_def empty_scope_def
      example_store_def entitySnapshot_def get_prop_def commit_def transaction_def
      runInTransaction_def extractCollectionsFromTransactions_def call_def perform_def
      emit_def processAfterCommitHooks_def filterHooks_def resetAfterCommit_def
      excludeHooks_def resetTransactionObjects_def reliable_world_def)

text \<open>
  C3. The specification says that a bulk commit saves all entities in one call and then executes
  each staged raw query with its text and parameters. Evaluated on a queue of one soft
  delete and one raw query, the bulk commit issues one \<open>save\<close> whose list holds the queue
  record of the delete (not the entity), and then \<open>query\<close> with \<open>undefined\<close> text and
  \<open>undefined\<close> parameters: the raw-query list holds queue records, which have no
  \<open>query\<close> and no \<open>parameters\<close>. The same queue without bulk upsert issues
  \<open>softRemove\<close> on the entity and \<open>query\<close> with the staged text and parameters.
\<close>

theorem bulk_commit_queries_undefined_and_saves_queue_records:
  "trace (final (commit reliable_world None None True example_store
                   (addRawQuery ''SELECT 1'' [JNum 1] (delete 0 empty_scope)))) =
     [StartTransaction,
      Call (DbSaveAll [Wrapper \<lparr>type = EntityCollection, object = Instance 0,
                                 objectState = Some Delete, options = None\<rparr>] None),
      Call (DbQuery JUndefined JUndefined),
      CommitTransaction] \<and>
   trace (final (commit reliable_world None None False example_store
                   (addRawQuery ''SELECT 1'' [JNum 1] (delete 0 empty_scope)))) =
     [StartTransaction,
      Call (DbSoftRemove (Instance 0) None),
      Call (DbQuery (JStr ''SELECT 1'') (JArr [JNum 1])),
      CommitTransaction]"
  by (simp add: addRawQuery_def delete_def push_def empty_scope_def commit_def
      transaction_def runInTransaction_def extractCollectionsFromTransactions_def
      dispatch_def record_query_def record_parameters_def call_def perform_def emit_def
      processAfterCommitHooks_def filterHooks_def resetAfterCommit_def excludeHooks_def
      resetTransactionObjects_def reliable_world_def)

end
